theory Spec2Isabelle
  imports Complex_Main "HOL-Library.Option_ord"
begin

section \<open>GarderieFlow: enrollment lifecycle and ledger of \<^verbatim>\<open>src/app.py\<close>\<close>

text \<open>
  The development embeds the request handlers of \<^verbatim>\<open>src/app.py\<close> that create, extend,
  renew, terminate and scan enrollments, record payments and expenses, and build the
  monthly and annual reports.

  Modelling boundary.
  \<^item> The relational store is a record of tables, each table a list of rows in table order.
    A query without \<^verbatim>\<open>ORDER BY\<close> returns rows in table order; \<^verbatim>\<open>first()\<close> takes the head.
    Rows written through an ORM object are addressed by primary key.
  \<^item> The handler's own failure paths (a missing JSON key, \<^verbatim>\<open>first_or_404\<close>, Python's
    \<^verbatim>\<open>date\<close> range, adding a \<^verbatim>\<open>Decimal\<close> to a \<^verbatim>\<open>float\<close>) are branches returning \<open>Inl\<close>.
    An error leaves the store as it was (the session is never committed).
  \<^item> The constraints the engine checks at commit (foreign keys, enum membership, the
    precision of \<^verbatim>\<open>Numeric(10, 2)\<close>) are outside the model: JSON values are taken as
    well typed, and money is an integer number of hundredths.
  \<^item> The audit columns \<^verbatim>\<open>created_at\<close> and \<^verbatim>\<open>updated_at\<close> are left out of the rows.
  \<^item> One request reads the clock once: the parameter \<open>now\<close> stands for every
    \<^verbatim>\<open>datetime.now()\<close> of the handler.
  \<^item> A Python \<^verbatim>\<open>float\<close> is represented by the rational number it approximates; binary
    rounding is not modelled. Which Python type a number has (\<^verbatim>\<open>int\<close>, \<^verbatim>\<open>float\<close>,
    \<^verbatim>\<open>Decimal\<close>) is modelled, since \<^verbatim>\<open>Decimal + float\<close> raises.
\<close>

subsection \<open>Enumerations (lines 31-38)\<close>

datatype enrollment_status = Actif | Expire | Renouvele | Resilie

datatype transaction_type = Gain | Depense

datatype payment_method = Especes | Virement | Carte | Mobile_money | Autre

datatype error =
    KeyError string
  | NotFound
  | Forbidden
  | TypeError
  | ValueError
  | OverflowError

subsection \<open>Dates and timestamps\<close>

text \<open>
  A \<^verbatim>\<open>date\<close> is its proleptic Gregorian ordinal (\<^verbatim>\<open>date.toordinal()\<close>: day 1 is 0001-01-01),
  so a difference of dates is a difference of integers. A \<^verbatim>\<open>datetime\<close> is a date and the
  microseconds elapsed since midnight.
\<close>

type_synonym date = int

record datetime =
  dt_date :: date
  dt_micros :: nat

definition MINYEAR :: int where
  "MINYEAR = 1"

definition MAXYEAR :: int where
  "MAXYEAR = 9999"

definition max_ordinal :: int where
  \<comment> \<open>\<^verbatim>\<open>date.max.toordinal()\<close>, the ordinal of 9999-12-31\<close>
  "max_ordinal = 3652059"

definition is_leap :: "int \<Rightarrow> bool" where
  "is_leap y = (y mod 4 = 0 \<and> (y mod 100 \<noteq> 0 \<or> y mod 400 = 0))"

definition days_before_year :: "int \<Rightarrow> int" where
  "days_before_year y = (y - 1) * 365 + (y - 1) div 4 - (y - 1) div 100 + (y - 1) div 400"

definition DAYS_IN_MONTH :: "int list" where
  "DAYS_IN_MONTH = [-1, 31, 28, 31, 30, 31, 30, 31, 31, 30, 31, 30, 31]"

definition DAYS_BEFORE_MONTH :: "int list" where
  "DAYS_BEFORE_MONTH = [-1, 0, 31, 59, 90, 120, 151, 181, 212, 243, 273, 304, 334]"

definition days_before_month :: "int \<Rightarrow> int \<Rightarrow> int" where
  "days_before_month y m =
     DAYS_BEFORE_MONTH ! nat m + (if m > 2 \<and> is_leap y then 1 else 0)"

definition ymd2ord :: "int \<Rightarrow> int \<Rightarrow> int \<Rightarrow> date" where
  "ymd2ord y m d = days_before_year y + days_before_month y m + d"

definition first_of_month :: "int \<Rightarrow> int \<Rightarrow> error + date" where
  \<comment> \<open>\<^verbatim>\<open>date(year, month, 1)\<close>: Python checks the year and the month\<close>
  "first_of_month y m =
     (if \<not> (MINYEAR \<le> y \<and> y \<le> MAXYEAR) then Inl ValueError
      else if \<not> (1 \<le> m \<and> m \<le> 12) then Inl ValueError
      else Inr (ymd2ord y m 1))"

definition ord2ymd :: "date \<Rightarrow> int \<times> int \<times> int" where
  \<comment> \<open>the inverse of \<open>ymd2ord\<close>, as \<^verbatim>\<open>datetime._ord2ymd\<close> computes it\<close>
  "ord2ymd n0 =
     (let n = n0 - 1;
          n400 = n div 146097; n = n mod 146097;
          n100 = n div 36524; n = n mod 36524;
          n4 = n div 1461; n = n mod 1461;
          n1 = n div 365; n = n mod 365;
          year = n400 * 400 + 1 + n100 * 100 + n4 * 4 + n1
      in if n1 = 4 \<or> n100 = 4 then (year - 1, 12, 31)
         else
           let leapyear = (n1 = 3 \<and> (n4 \<noteq> 24 \<or> n100 = 3));
               month = (n + 50) div 32;
               preceding = DAYS_BEFORE_MONTH ! nat month
                             + (if month > 2 \<and> leapyear then 1 else 0)
           in if preceding > n
              then let month' = month - 1;
                       preceding' = preceding
                          - (DAYS_IN_MONTH ! nat month'
                              + (if month' = 2 \<and> leapyear then 1 else 0))
                   in (year, month', n - preceding' + 1)
              else (year, month, n - preceding + 1))"

definition year_of :: "date \<Rightarrow> int" where
  \<comment> \<open>\<^verbatim>\<open>extract('year', d)\<close> and \<^verbatim>\<open>d.year\<close>\<close>
  "year_of d = fst (ord2ymd d)"

definition month_of :: "date \<Rightarrow> int" where
  \<comment> \<open>\<^verbatim>\<open>extract('month', d)\<close> and \<^verbatim>\<open>d.month\<close>\<close>
  "month_of d = fst (snd (ord2ymd d))"

definition date_add :: "date \<Rightarrow> int \<Rightarrow> error + date" where
  \<comment> \<open>\<^verbatim>\<open>d + timedelta(days=n)\<close>: OverflowError outside 0001-01-01 .. 9999-12-31\<close>
  "date_add d n =
     (if 1 \<le> d + n \<and> d + n \<le> max_ordinal then Inr (d + n) else Inl OverflowError)"

definition before_date :: "datetime \<Rightarrow> date \<Rightarrow> bool" where
  \<comment> \<open>SQL \<^verbatim>\<open>timestamp < date\<close>: the date stands for its midnight\<close>
  "before_date ts d = (dt_date ts < d)"

subsection \<open>Rows (lines 55-122)\<close>

record student =
  s_id :: int
  s_organization_id :: int

record enrollment =
  e_id :: int
  e_student_id :: int
  e_organization_id :: int
  e_start_date :: date
  e_end_date :: "date option"
  e_amount :: int
  e_status :: enrollment_status
  e_notified_at :: "datetime option"
  e_terminated_at :: "datetime option"

record category =
  c_id :: int
  c_organization_id :: int
  c_label :: string
  c_is_system :: bool

record transaction =
  t_id :: int
  t_organization_id :: int
  t_student_id :: "int option"
  t_date :: date
  t_type :: transaction_type
  t_amount :: int
  t_payment_method :: payment_method
  t_reference :: "string option"
  t_category_id :: "int option"
  t_comment :: "string option"

record db =
  students :: "student list"
  enrollments :: "enrollment list"
  categories :: "category list"
  transactions :: "transaction list"
  enrollment_seq :: int
  transaction_seq :: int

subsection \<open>Recording an expense (lines 558-575)\<close>

record expense_request =
  er_date :: "date option"
  er_amount :: "int option"
  er_payment_method :: "payment_method option"
  er_category_id :: "int option option"
  er_reference :: "string option"
  er_comment :: "string option"

definition request_date :: "date option \<Rightarrow> datetime \<Rightarrow> date" where
  \<comment> \<open>\<^verbatim>\<open>datetime.fromisoformat(data.get('date', datetime.now().isoformat())).date()\<close>\<close>
  "request_date d now = (case d of None \<Rightarrow> dt_date now | Some v \<Rightarrow> v)"

definition add_transaction :: "transaction \<Rightarrow> db \<Rightarrow> db" where
  \<comment> \<open>\<^verbatim>\<open>db.session.add(trans)\<close>: the row takes the next value of the id sequence\<close>
  "add_transaction t d =
     d\<lparr>transactions := transactions d @ [t\<lparr>t_id := transaction_seq d\<rparr>],
        transaction_seq := transaction_seq d + 1\<rparr>"

definition record_expense :: "db \<Rightarrow> int \<Rightarrow> expense_request \<Rightarrow> datetime \<Rightarrow> error + db" where
  "record_expense d org_id data now =
     (let date_val = request_date (er_date data) now in
      case er_amount data of
        None \<Rightarrow> Inl (KeyError ''amount'')
      | Some amount \<Rightarrow>
      (case er_payment_method data of
        None \<Rightarrow> Inl (KeyError ''payment_method'')
      | Some pm \<Rightarrow>
      (case er_category_id data of
        None \<Rightarrow> Inl (KeyError ''category_id'')
      | Some cat \<Rightarrow>
          Inr (add_transaction
                 \<lparr>t_id = 0, t_organization_id = org_id, t_student_id = None,
                  t_date = date_val, t_type = Depense, t_amount = - \<bar>amount\<bar>,
                  t_payment_method = pm, t_reference = er_reference data,
                  t_category_id = cat, t_comment = er_comment data\<rparr> d))))"

subsection \<open>Recording a payment (lines 518-556)\<close>

record payment_request =
  pr_student_id :: "int option"
  pr_amount :: "int option"
  pr_date :: "date option"
  pr_duration_days :: "int option"
  pr_payment_method :: "payment_method option"
  pr_reference :: "string option"
  pr_comment :: "string option"

definition end_date_desc_key :: "enrollment \<Rightarrow> int option" where
  \<comment> \<open>\<^verbatim>\<open>ORDER BY end_date DESC\<close> as an ascending key: the repository targets PostgreSQL
      (line 6), where \<^verbatim>\<open>DESC\<close> puts NULL first; \<open>None\<close> is least in the order on options\<close>
  "end_date_desc_key e = map_option uminus (e_end_date e)"

definition current_enroll :: "enrollment list \<Rightarrow> int \<Rightarrow> enrollment option" where
  \<comment> \<open>line 539: \<^verbatim>\<open>filter_by(student_id=..., status='actif').order_by(end_date.desc()).first()\<close>;
      the sort is stable, so rows with equal keys stay in table order\<close>
  "current_enroll es student_id =
     (case sort_key end_date_desc_key
             (filter (\<lambda>e. e_student_id e = student_id \<and> e_status e = Actif) es) of
        [] \<Rightarrow> None
      | e # _ \<Rightarrow> Some e)"

definition update_enrollment ::
  "int \<Rightarrow> (enrollment \<Rightarrow> enrollment) \<Rightarrow> enrollment list \<Rightarrow> enrollment list" where
  \<comment> \<open>an attribute write on an ORM object: \<^verbatim>\<open>UPDATE enrollments SET ... WHERE id = k\<close>\<close>
  "update_enrollment k f es = map (\<lambda>e. if e_id e = k then f e else e) es"

definition add_enrollment_row :: "enrollment \<Rightarrow> db \<Rightarrow> db" where
  \<comment> \<open>\<^verbatim>\<open>db.session.add(enroll)\<close>: the row takes the next value of the id sequence\<close>
  "add_enrollment_row e d =
     d\<lparr>enrollments := enrollments d @ [e\<lparr>e_id := enrollment_seq d\<rparr>],
        enrollment_seq := enrollment_seq d + 1\<rparr>"

definition record_payment :: "db \<Rightarrow> int \<Rightarrow> payment_request \<Rightarrow> datetime \<Rightarrow> error + db" where
  "record_payment d org_id data now =
     (case pr_student_id data of
        None \<Rightarrow> Inl (KeyError ''student_id'')
      | Some student_id \<Rightarrow>
      (case pr_amount data of
        None \<Rightarrow> Inl (KeyError ''amount'')
      | Some amount \<Rightarrow>
      (let date_val = request_date (pr_date data) now;
           duration_days = (case pr_duration_days data of None \<Rightarrow> 30 | Some n \<Rightarrow> n)
       in
       case pr_payment_method data of
         None \<Rightarrow> Inl (KeyError ''payment_method'')
       | Some pm \<Rightarrow>
       (let d1 = add_transaction
                   \<lparr>t_id = 0, t_organization_id = org_id, t_student_id = Some student_id,
                    t_date = date_val, t_type = Gain, t_amount = amount,
                    t_payment_method = pm, t_reference = pr_reference data,
                    t_category_id = None, t_comment = pr_comment data\<rparr> d
        in
        case current_enroll (enrollments d1) student_id of
          Some cur \<Rightarrow>
            (case e_end_date cur of
               Some ed \<Rightarrow>
                 (case date_add ed duration_days of
                    Inl err \<Rightarrow> Inl err
                  | Inr ed' \<Rightarrow>
                      Inr (d1\<lparr>enrollments :=
                             update_enrollment (e_id cur)
                               (\<lambda>e. e\<lparr>e_end_date := Some ed', e_status := Renouvele\<rparr>)
                               (enrollments d1)\<rparr>))
             | None \<Rightarrow>
                 Inr (d1\<lparr>enrollments :=
                        update_enrollment (e_id cur) (\<lambda>e. e\<lparr>e_status := Renouvele\<rparr>)
                          (enrollments d1)\<rparr>))
        | None \<Rightarrow>
            (case date_add date_val duration_days of
               Inl err \<Rightarrow> Inl err
             | Inr ed \<Rightarrow>
                 Inr (add_enrollment_row
                        \<lparr>e_id = 0, e_student_id = student_id, e_organization_id = org_id,
                         e_start_date = date_val, e_end_date = Some ed, e_amount = amount,
                         e_status = Actif, e_notified_at = None, e_terminated_at = None\<rparr>
                        d1))))))"

definition db_after :: "db \<Rightarrow> error + db \<Rightarrow> db" where
  \<comment> \<open>the store once the request is over: a handler that raised committed nothing\<close>
  "db_after d r = (case r of Inl _ \<Rightarrow> d | Inr d' \<Rightarrow> d')"

subsection \<open>Creating an enrollment (lines 617-635)\<close>

record enrollment_request =
  nr_student_id :: "int option"
  nr_start_date :: "date option"
  nr_end_date :: "date option"
  nr_amount :: "int option"
  nr_status :: "enrollment_status option"

definition add_enrollment :: "db \<Rightarrow> int \<Rightarrow> enrollment_request \<Rightarrow> error + db \<times> int" where
  "add_enrollment d org_id data =
     (case nr_student_id data of
        None \<Rightarrow> Inl (KeyError ''student_id'')
      | Some student_id \<Rightarrow>
      (case find (\<lambda>s. s_id s = student_id \<and> s_organization_id s = org_id) (students d) of
        None \<Rightarrow> Inl NotFound
      | Some _ \<Rightarrow>
      (case nr_start_date data of
        None \<Rightarrow> Inl (KeyError ''start_date'')
      | Some start_date \<Rightarrow>
      (case nr_amount data of
        None \<Rightarrow> Inl (KeyError ''amount'')
      | Some amount \<Rightarrow>
          Inr (add_enrollment_row
                 \<lparr>e_id = 0, e_student_id = student_id, e_organization_id = org_id,
                  e_start_date = start_date, e_end_date = nr_end_date data,
                  e_amount = amount,
                  e_status = (case nr_status data of None \<Rightarrow> Actif | Some st \<Rightarrow> st),
                  e_notified_at = None, e_terminated_at = None\<rparr> d,
               enrollment_seq d)))))"

subsection \<open>Expiration check (lines 637-659)\<close>

definition thresholds :: "int list" where
  "thresholds = [0, 1, 3, 7]"

definition max_threshold :: int where
  \<comment> \<open>\<^verbatim>\<open>max(thresholds)\<close>\<close>
  "max_threshold = fold max (tl thresholds) (hd thresholds)"

definition expiring :: "enrollment list \<Rightarrow> int \<Rightarrow> date \<Rightarrow> enrollment list" where
  \<comment> \<open>the query of lines 642-648; a comparison with NULL selects nothing\<close>
  "expiring es org_id today =
     filter (\<lambda>e. e_organization_id e = org_id
               \<and> e_status e = Actif
               \<and> (case e_end_date e of None \<Rightarrow> False
                   | Some ed \<Rightarrow> ed - today \<le> max_threshold)
               \<and> (case e_notified_at e of None \<Rightarrow> True
                   | Some ts \<Rightarrow> before_date ts today)) es"

fun notify_loop ::
  "datetime \<Rightarrow> date \<Rightarrow> enrollment list \<Rightarrow> enrollment list \<Rightarrow> int list
     \<Rightarrow> error + enrollment list \<times> int list" where
  \<comment> \<open>the loop of lines 650-657 over the rows the query returned; \<open>tbl\<close> is the table,
      \<open>notified\<close> the list built so far. \<^verbatim>\<open>None - today\<close> would raise TypeError\<close>
  "notify_loop now today [] tbl notified = Inr (tbl, notified)"
| "notify_loop now today (e # rest) tbl notified =
     (case e_end_date e of
        None \<Rightarrow> Inl TypeError
      | Some ed \<Rightarrow>
          (let days_left = ed - today in
           if days_left \<in> set thresholds
           then notify_loop now today rest
                  (update_enrollment (e_id e) (\<lambda>r. r\<lparr>e_notified_at := Some now\<rparr>) tbl)
                  (notified @ [e_id e])
           else notify_loop now today rest tbl notified))"

definition check_expirations :: "db \<Rightarrow> int \<Rightarrow> datetime \<Rightarrow> error + db \<times> int list" where
  "check_expirations d org_id now =
     (let today = dt_date now in
      case notify_loop now today (expiring (enrollments d) org_id today) (enrollments d) [] of
        Inl err \<Rightarrow> Inl err
      | Inr (tbl, notified) \<Rightarrow> Inr (d\<lparr>enrollments := tbl\<rparr>, notified))"

subsection \<open>Renewal and termination (lines 661-688)\<close>

record renew_request =
  rr_duration_days :: "int option"
  rr_amount :: "int option"

definition renew_enrollment ::
  "db \<Rightarrow> int \<Rightarrow> int \<Rightarrow> renew_request \<Rightarrow> datetime \<Rightarrow> error + db \<times> int" where
  "renew_enrollment d org_id k data now =
     (let duration_days = (case rr_duration_days data of None \<Rightarrow> 30 | Some n \<Rightarrow> n) in
      case find (\<lambda>e. e_id e = k \<and> e_organization_id e = org_id) (enrollments d) of
        None \<Rightarrow> Inl NotFound
      | Some enroll \<Rightarrow>
          (let d1 = d\<lparr>enrollments :=
                       update_enrollment (e_id enroll) (\<lambda>e. e\<lparr>e_status := Renouvele\<rparr>)
                         (enrollments d)\<rparr>
           in
           case (case e_end_date enroll of
                   Some ed \<Rightarrow> date_add ed 1
                 | None \<Rightarrow> Inr (dt_date now)) of
             Inl err \<Rightarrow> Inl err
           | Inr new_start \<Rightarrow>
               (case date_add new_start duration_days of
                  Inl err \<Rightarrow> Inl err
                | Inr new_end \<Rightarrow>
                    Inr (add_enrollment_row
                           \<lparr>e_id = 0, e_student_id = e_student_id enroll,
                            e_organization_id = org_id,
                            e_start_date = new_start, e_end_date = Some new_end,
                            e_amount = (case rr_amount data of
                                          None \<Rightarrow> e_amount enroll | Some a \<Rightarrow> a),
                            e_status = Actif, e_notified_at = None,
                            e_terminated_at = None\<rparr> d1,
                         enrollment_seq d1))))"

definition terminate_enrollment :: "db \<Rightarrow> int \<Rightarrow> int \<Rightarrow> datetime \<Rightarrow> error + db" where
  "terminate_enrollment d org_id k now =
     (case find (\<lambda>e. e_id e = k \<and> e_organization_id e = org_id) (enrollments d) of
        None \<Rightarrow> Inl NotFound
      | Some enroll \<Rightarrow>
          Inr (d\<lparr>enrollments :=
                 update_enrollment (e_id enroll)
                   (\<lambda>e. e\<lparr>e_status := Resilie, e_terminated_at := Some now\<rparr>)
                   (enrollments d)\<rparr>))"

subsection \<open>Python numbers in the reports\<close>

text \<open>
  \<^verbatim>\<open>func.sum\<close> over the \<^verbatim>\<open>Numeric(10, 2)\<close> column yields a \<^verbatim>\<open>Decimal\<close> (here its number
  of hundredths) or NULL when no row matches. The handlers mix it with \<^verbatim>\<open>float\<close> and
  \<^verbatim>\<open>int\<close> values.
\<close>

datatype pynum = PyInt int | PyFloat rat | PyDecimal int

definition sql_sum :: "int list \<Rightarrow> int option" where
  "sql_sum xs = (if xs = [] then None else Some (sum_list xs))"

definition or_zero_float :: "int option \<Rightarrow> pynum" where
  \<comment> \<open>\<^verbatim>\<open>scalar() or 0.0\<close>: \<^verbatim>\<open>None\<close> and \<^verbatim>\<open>Decimal('0.00')\<close> are falsy\<close>
  "or_zero_float v =
     (case v of None \<Rightarrow> PyFloat 0
      | Some c \<Rightarrow> if c = 0 then PyFloat 0 else PyDecimal c)"

fun py_float :: "pynum \<Rightarrow> rat" where
  "py_float (PyInt i) = of_int i"
| "py_float (PyFloat r) = r"
| "py_float (PyDecimal c) = of_int c / 100"

fun py_add :: "pynum \<Rightarrow> pynum \<Rightarrow> error + pynum" where
  "py_add (PyInt a) (PyInt b) = Inr (PyInt (a + b))"
| "py_add (PyInt a) (PyFloat b) = Inr (PyFloat (of_int a + b))"
| "py_add (PyFloat a) (PyInt b) = Inr (PyFloat (a + of_int b))"
| "py_add (PyFloat a) (PyFloat b) = Inr (PyFloat (a + b))"
| "py_add (PyInt a) (PyDecimal b) = Inr (PyDecimal (100 * a + b))"
| "py_add (PyDecimal a) (PyInt b) = Inr (PyDecimal (a + 100 * b))"
| "py_add (PyDecimal a) (PyDecimal b) = Inr (PyDecimal (a + b))"
| "py_add (PyDecimal a) (PyFloat b) = Inl TypeError"
| "py_add (PyFloat a) (PyDecimal b) = Inl TypeError"

fun py_sum :: "pynum \<Rightarrow> pynum list \<Rightarrow> error + pynum" where
  \<comment> \<open>the builtin \<^verbatim>\<open>sum\<close>, which starts from the \<^verbatim>\<open>int\<close> 0\<close>
  "py_sum acc [] = Inr acc"
| "py_sum acc (x # xs) =
     (case py_add acc x of Inl err \<Rightarrow> Inl err | Inr acc' \<Rightarrow> py_sum acc' xs)"

subsection \<open>Balance and reports (lines 582, 691-778)\<close>

definition balance :: "db \<Rightarrow> int \<Rightarrow> rat" where
  \<comment> \<open>line 582, then \<^verbatim>\<open>float(balance)\<close> of line 610\<close>
  "balance d org_id =
     py_float (or_zero_float (sql_sum
       (map t_amount (filter (\<lambda>t. t_organization_id t = org_id) (transactions d)))))"

definition gains_query :: "db \<Rightarrow> int \<Rightarrow> (date \<Rightarrow> bool) \<Rightarrow> pynum" where
  \<comment> \<open>lines 698-703 and 742-746; \<open>period\<close> is the filter on the date\<close>
  "gains_query d org_id period =
     or_zero_float (sql_sum
       (map t_amount
          (filter (\<lambda>t. t_organization_id t = org_id \<and> t_type t = Gain \<and> period (t_date t))
             (transactions d))))"

definition group_by_label :: "(string \<times> int) list \<Rightarrow> (string \<times> int) list" where
  \<comment> \<open>\<^verbatim>\<open>GROUP BY label\<close> with \<^verbatim>\<open>SUM(amount)\<close>: one row per label that occurs\<close>
  "group_by_label rows =
     map (\<lambda>l. (l, sum_list (map snd (filter (\<lambda>r. fst r = l) rows))))
       (remdups (map fst rows))"

definition expenses_by_cat :: "db \<Rightarrow> int \<Rightarrow> (date \<Rightarrow> bool) \<Rightarrow> (string \<times> int) list" where
  \<comment> \<open>lines 706-714 and 748-755: the inner join with the categories on
      \<^verbatim>\<open>Transaction.category_id == TransactionCategory.id\<close>\<close>
  "expenses_by_cat d org_id period =
     group_by_label
       (concat
          (map (\<lambda>t. map (\<lambda>c. (c_label c, t_amount t))
                      (filter (\<lambda>c. t_category_id t = Some (c_id c)) (categories d)))
             (filter (\<lambda>t. t_organization_id t = org_id \<and> t_type t = Depense
                          \<and> period (t_date t))
                (transactions d))))"

definition active_students :: "db \<Rightarrow> int \<Rightarrow> int \<Rightarrow> int \<Rightarrow> error + nat" where
  \<comment> \<open>lines 721-726 and 763-768: \<^verbatim>\<open>count(distinct student_id)\<close>\<close>
  "active_students d org_id year month =
     (case first_of_month year month of
        Inl err \<Rightarrow> Inl err
      | Inr month_start \<Rightarrow>
          (case date_add month_start 31 of
             Inl err \<Rightarrow> Inl err
           | Inr window_end \<Rightarrow>
               Inr (length (remdups (map e_student_id
                      (filter (\<lambda>e. e_organization_id e = org_id
                                 \<and> (e_status e = Actif \<or> e_status e = Renouvele)
                                 \<and> e_start_date e \<le> window_end
                                 \<and> (case e_end_date e of None \<Rightarrow> True
                                     | Some ed \<Rightarrow> ed \<ge> month_start))
                         (enrollments d)))))))"

record 'a report =
  rp_gains :: rat
  rp_expenses :: "(string \<times> rat) list"
  rp_total_expenses :: rat
  rp_profit_loss :: rat
  rp_avg_active_students :: 'a

definition monthly_report ::
  "db \<Rightarrow> int \<Rightarrow> int option \<Rightarrow> int option \<Rightarrow> datetime \<Rightarrow> error + nat report" where
  "monthly_report d org_id year_arg month_arg now =
     (let year = (case year_arg of None \<Rightarrow> year_of (dt_date now) | Some y \<Rightarrow> y);
          month = (case month_arg of None \<Rightarrow> month_of (dt_date now) | Some m \<Rightarrow> m);
          period = (\<lambda>dt. year_of dt = year \<and> month_of dt = month);
          gains = gains_query d org_id period;
          by_cat = expenses_by_cat d org_id period
      in
      case py_sum (PyInt 0) (map (\<lambda>(_, t). PyFloat (py_float (PyDecimal t))) by_cat) of
        Inl err \<Rightarrow> Inl err
      | Inr total_expenses \<Rightarrow>
      (case py_add gains total_expenses of
        Inl err \<Rightarrow> Inl err
      | Inr profit_loss \<Rightarrow>
      (case active_students d org_id year month of
        Inl err \<Rightarrow> Inl err
      | Inr avg_students \<Rightarrow>
          Inr \<lparr>rp_gains = py_float gains,
               rp_expenses = map (\<lambda>(cat, total). (cat, py_float (PyDecimal total))) by_cat,
               rp_total_expenses = py_float total_expenses,
               rp_profit_loss = py_float profit_loss,
               rp_avg_active_students = avg_students\<rparr>)))"

fun monthly_avgs :: "db \<Rightarrow> int \<Rightarrow> int \<Rightarrow> int list \<Rightarrow> error + nat list" where
  \<comment> \<open>the loop of lines 762-769 over the months still to visit\<close>
  "monthly_avgs d org_id year [] = Inr []"
| "monthly_avgs d org_id year (m # ms) =
     (case active_students d org_id year m of
        Inl err \<Rightarrow> Inl err
      | Inr avg \<Rightarrow>
          (case monthly_avgs d org_id year ms of
             Inl err \<Rightarrow> Inl err
           | Inr avgs \<Rightarrow> Inr (avg # avgs)))"

definition annual_report ::
  "db \<Rightarrow> int \<Rightarrow> int option \<Rightarrow> datetime \<Rightarrow> error + rat report" where
  "annual_report d org_id year_arg now =
     (let year = (case year_arg of None \<Rightarrow> year_of (dt_date now) | Some y \<Rightarrow> y);
          period = (\<lambda>dt. year_of dt = year);
          gains = gains_query d org_id period;
          by_cat = expenses_by_cat d org_id period
      in
      case py_sum (PyInt 0) (map (\<lambda>(_, t). PyFloat (py_float (PyDecimal t))) by_cat) of
        Inl err \<Rightarrow> Inl err
      | Inr total_expenses \<Rightarrow>
      (case py_add gains total_expenses of
        Inl err \<Rightarrow> Inl err
      | Inr profit_loss \<Rightarrow>
      (case monthly_avgs d org_id year [1, 2, 3, 4, 5, 6, 7, 8, 9, 10, 11, 12] of
        Inl err \<Rightarrow> Inl err
      | Inr avgs \<Rightarrow>
          Inr \<lparr>rp_gains = py_float gains,
               rp_expenses = map (\<lambda>(cat, total). (cat, py_float (PyDecimal total))) by_cat,
               rp_total_expenses = py_float total_expenses,
               rp_profit_loss = py_float profit_loss,
               rp_avg_active_students = of_nat (sum_list avgs) / 12\<rparr>)))"

subsection \<open>Deleting a category (lines 813-821, with \<^verbatim>\<open>ondelete='SET NULL'\<close> of line 119)\<close>

definition delete_category :: "db \<Rightarrow> int \<Rightarrow> int \<Rightarrow> error + db" where
  "delete_category d org_id k =
     (case find (\<lambda>c. c_id c = k \<and> c_organization_id c = org_id) (categories d) of
        None \<Rightarrow> Inl NotFound
      | Some cat \<Rightarrow>
          if c_is_system cat then Inl Forbidden
          else Inr (d\<lparr>categories := filter (\<lambda>c. c_id c \<noteq> c_id cat) (categories d),
                      transactions :=
                        map (\<lambda>t. if t_category_id t = Some (c_id cat)
                                 then t\<lparr>t_category_id := None\<rparr> else t)
                          (transactions d)\<rparr>))"

section \<open>Concrete scenarios\<close>

text \<open>The clock reads noon of 2024-03-01 (ordinal 738946); \<open>later\<close> is the same evening.\<close>

definition noon :: datetime where
  "noon = \<lparr>dt_date = 738946, dt_micros = 43200000000\<rparr>"

definition later :: datetime where
  "later = \<lparr>dt_date = 738946, dt_micros = 72000000000\<rparr>"

definition empty_db :: db where
  "empty_db = \<lparr>students = [], enrollments = [], categories = [], transactions = [],
               enrollment_seq = 1, transaction_seq = 1\<rparr>"

definition expense_of :: "int \<Rightarrow> expense_request" where
  \<comment> \<open>an expense of \<open>a\<close> hundredths, paid in cash, in category 1\<close>
  "expense_of a = \<lparr>er_date = None, er_amount = Some a, er_payment_method = Some Especes,
                   er_category_id = Some (Some 1), er_reference = None, er_comment = None\<rparr>"

definition payment_of :: "int \<Rightarrow> int \<Rightarrow> int option \<Rightarrow> payment_request" where
  \<comment> \<open>a payment of \<open>a\<close> hundredths by bank transfer for student \<open>sid\<close>, dated by the clock\<close>
  "payment_of sid a dur =
     \<lparr>pr_student_id = Some sid, pr_amount = Some a, pr_date = None,
      pr_duration_days = dur, pr_payment_method = Some Virement,
      pr_reference = None, pr_comment = None\<rparr>"

definition dated_payment :: "int \<Rightarrow> int \<Rightarrow> date \<Rightarrow> int \<Rightarrow> payment_request" where
  \<comment> \<open>a payment of \<open>a\<close> hundredths for student \<open>sid\<close> that names its date and its duration\<close>
  "dated_payment sid a day dur =
     \<lparr>pr_student_id = Some sid, pr_amount = Some a, pr_date = Some day,
      pr_duration_days = Some dur, pr_payment_method = Some Virement,
      pr_reference = None, pr_comment = None\<rparr>"

definition enrollment_row ::
  "int \<Rightarrow> int \<Rightarrow> int \<Rightarrow> date option \<Rightarrow> enrollment_status \<Rightarrow> enrollment" where
  \<comment> \<open>row \<open>k\<close> of student \<open>sid\<close> in organization \<open>org\<close>, started 2024-01-15, 150.00\<close>
  "enrollment_row k sid org ed st =
     \<lparr>e_id = k, e_student_id = sid, e_organization_id = org, e_start_date = 738900,
      e_end_date = ed, e_amount = 15000, e_status = st,
      e_notified_at = None, e_terminated_at = None\<rparr>"

definition lapsed_db :: db where
  \<comment> \<open>student 7 of organization 1 has one enrollment, terminated\<close>
  "lapsed_db = empty_db\<lparr>enrollments := [enrollment_row 1 7 1 (Some 738930) Resilie],
                         enrollment_seq := 2\<rparr>"

definition two_active_db :: db where
  \<comment> \<open>student 7 of organization 1 has two active enrollments, ending 2024-03-05 and 2024-03-15\<close>
  "two_active_db =
     empty_db\<lparr>enrollments := [enrollment_row 1 7 1 (Some 738950) Actif,
                              enrollment_row 2 7 1 (Some 738960) Actif],
              enrollment_seq := 3\<rparr>"

definition open_ended_db :: db where
  \<comment> \<open>student 7 has an active enrollment without end date and one ending 2024-03-15\<close>
  "open_ended_db =
     empty_db\<lparr>enrollments := [enrollment_row 1 7 1 (Some 738960) Actif,
                              enrollment_row 2 7 1 None Actif],
              enrollment_seq := 3\<rparr>"

definition two_org_db :: db where
  \<comment> \<open>student 7 belongs to organization 1, student 8 to organization 2; the only
      enrollment is student 8's, in organization 2, active until 2024-03-15\<close>
  "two_org_db =
     empty_db\<lparr>students := [\<lparr>s_id = 7, s_organization_id = 1\<rparr>,
                           \<lparr>s_id = 8, s_organization_id = 2\<rparr>],
              enrollments := [enrollment_row 1 8 2 (Some 738960) Actif],
              enrollment_seq := 2\<rparr>"

definition renew_default :: renew_request where
  \<comment> \<open>a renewal request with an empty JSON object\<close>
  "renew_default = \<lparr>rr_duration_days = None, rr_amount = None\<rparr>"

definition eligible :: "int \<Rightarrow> date \<Rightarrow> enrollment \<Rightarrow> bool" where
  \<comment> \<open>the enrollments the specification says a check notifies: of the organization, in
      status active, with a non-null end date, not yet stamped today, and with
      \<open>days_left = end_date - today\<close> one of 0, 1, 3, 7\<close>
  "eligible org_id today e =
     (e_organization_id e = org_id
      \<and> e_status e = Actif
      \<and> (case e_end_date e of None \<Rightarrow> False
          | Some ed \<Rightarrow> ed - today = 0 \<or> ed - today = 1 \<or> ed - today = 3 \<or> ed - today = 7)
      \<and> (case e_notified_at e of None \<Rightarrow> True | Some ts \<Rightarrow> dt_date ts < today))"

definition expiring_db :: db where
  \<comment> \<open>on 2024-03-01 (738946): enrollment 1 ends in 3 days, enrollment 2 in 5 days,
      enrollment 3 in 7 days but belongs to organization 2, enrollment 4 ends today and
      was stamped yesterday, enrollment 5 ends tomorrow and was stamped this morning\<close>
  "expiring_db =
     empty_db\<lparr>enrollments :=
                [enrollment_row 1 7 1 (Some 738949) Actif,
                 enrollment_row 2 9 1 (Some 738951) Actif,
                 enrollment_row 3 8 2 (Some 738953) Actif,
                 (enrollment_row 4 10 1 (Some 738946) Actif)
                    \<lparr>e_notified_at := Some \<lparr>dt_date = 738945, dt_micros = 0\<rparr>\<rparr>,
                 (enrollment_row 5 11 1 (Some 738947) Actif)
                    \<lparr>e_notified_at := Some \<lparr>dt_date = 738946, dt_micros = 1\<rparr>\<rparr>],
              enrollment_seq := 6\<rparr>"

definition gain_row :: transaction where
  \<comment> \<open>500.00 received from student 7 on 2024-03-05\<close>
  "gain_row = \<lparr>t_id = 1, t_organization_id = 1, t_student_id = Some 7, t_date = 738950,
               t_type = Gain, t_amount = 50000, t_payment_method = Virement,
               t_reference = None, t_category_id = None, t_comment = None\<rparr>"

definition expense_row :: "int option \<Rightarrow> transaction" where
  \<comment> \<open>120.00 spent on 2024-03-10, in the category given\<close>
  "expense_row cat = \<lparr>t_id = 2, t_organization_id = 1, t_student_id = None, t_date = 738955,
                      t_type = Depense, t_amount = - 12000, t_payment_method = Especes,
                      t_reference = None, t_category_id = cat, t_comment = None\<rparr>"

definition march_db :: db where
  \<comment> \<open>organization 1 in March 2024: gains of 500.00 and an expense of 120.00 in its
      category 1, ``Loyer''\<close>
  "march_db =
     empty_db\<lparr>categories := [\<lparr>c_id = 1, c_organization_id = 1, c_label = ''Loyer'',
                              c_is_system = False\<rparr>],
              transactions := [gain_row, expense_row (Some 1)],
              transaction_seq := 3\<rparr>"

definition uncategorized_db :: db where
  \<comment> \<open>the same ledger once category 1 is deleted: the expense has no category\<close>
  "uncategorized_db =
     empty_db\<lparr>transactions := [gain_row, expense_row None], transaction_seq := 3\<rparr>"

section \<open>Theorems\<close>

subsection \<open>Calendar checks\<close>

lemma ymd2ord_2024_03_01: "ymd2ord 2024 3 1 = 738946"
  by (simp add: ymd2ord_def days_before_year_def days_before_month_def
      DAYS_BEFORE_MONTH_def is_leap_def)

lemma ord2ymd_738946: "ord2ymd 738946 = (2024, 3, 1)"
  by (simp add: ord2ymd_def Let_def DAYS_BEFORE_MONTH_def DAYS_IN_MONTH_def)

subsection \<open>Recording an expense\<close>

text \<open>
  C3. For every input amount, of either sign, \<open>record_expense\<close> stores one transaction whose
  amount is the negation of the absolute value of the input, hence never positive. The
  request carries the keys the handler indexes (\<^verbatim>\<open>amount\<close>, \<^verbatim>\<open>payment_method\<close>,
  \<^verbatim>\<open>category_id\<close>).
\<close>

theorem record_expense_negated_magnitude:
  assumes "er_amount data = Some a"
    and "er_payment_method data = Some pm"
    and "er_category_id data = Some cat"
  shows "record_expense d org_id data now =
           Inr (d\<lparr>transactions := transactions d @
                    [\<lparr>t_id = transaction_seq d, t_organization_id = org_id,
                      t_student_id = None, t_date = request_date (er_date data) now,
                      t_type = Depense, t_amount = - \<bar>a\<bar>, t_payment_method = pm,
                      t_reference = er_reference data, t_category_id = cat,
                      t_comment = er_comment data\<rparr>],
                  transaction_seq := transaction_seq d + 1\<rparr>)
         \<and> - \<bar>a\<bar> \<le> 0"
  using assms by (simp add: record_expense_def add_transaction_def)

text \<open>Both 50.00 and -50.00 are stored as -50.00.\<close>

theorem record_expense_negated_magnitude_witness:
  "er_amount (expense_of 5000) = Some 5000
   \<and> er_amount (expense_of (- 5000)) = Some (- 5000)
   \<and> map t_amount (transactions (db_after empty_db
         (record_expense empty_db 1 (expense_of 5000) noon))) = [- 5000]
   \<and> map t_amount (transactions (db_after empty_db
         (record_expense empty_db 1 (expense_of (- 5000)) noon))) = [- 5000]"
  using record_expense_negated_magnitude
          [of "expense_of 5000" 5000 Especes "Some 1" empty_db 1 noon]
        record_expense_negated_magnitude
          [of "expense_of (- 5000)" "- 5000" Especes "Some 1" empty_db 1 noon]
  by (simp add: expense_of_def db_after_def empty_db_def)

subsection \<open>The enrollment a payment selects\<close>

lemma sort_key_Nil_iff: "(sort_key f xs = []) = (xs = [])"
proof
  assume "sort_key f xs = []"
  then have "length (sort_key f xs) = 0" by simp
  then show "xs = []" by (simp only: length_sort length_0_conv)
qed simp

lemma current_enroll_None:
  "(current_enroll es sid = None)
     = (\<forall>e \<in> set es. \<not> (e_student_id e = sid \<and> e_status e = Actif))"
proof -
  let ?xs = "filter (\<lambda>e. e_student_id e = sid \<and> e_status e = Actif) es"
  have "(current_enroll es sid = None) = (sort_key end_date_desc_key ?xs = [])"
    unfolding current_enroll_def by (simp split: list.splits)
  also have "\<dots> = (?xs = [])"
    by (rule sort_key_Nil_iff)
  also have "\<dots> = (\<forall>e \<in> set es. \<not> (e_student_id e = sid \<and> e_status e = Actif))"
    by (simp only: filter_empty_conv)
  finally show ?thesis .
qed

lemma current_enroll_Some:
  assumes "current_enroll es sid = Some cur"
  shows "cur \<in> set es \<and> e_student_id cur = sid \<and> e_status cur = Actif
         \<and> (\<forall>e \<in> set es. e_student_id e = sid \<and> e_status e = Actif
                \<longrightarrow> end_date_desc_key cur \<le> end_date_desc_key e)"
proof -
  define xs where "xs = filter (\<lambda>e. e_student_id e = sid \<and> e_status e = Actif) es"
  define ys where "ys = sort_key end_date_desc_key xs"
  have ce: "current_enroll es sid = (case ys of [] \<Rightarrow> None | e # _ \<Rightarrow> Some e)"
    by (simp only: current_enroll_def xs_def ys_def)
  obtain rest where ys: "ys = cur # rest"
  proof (cases ys)
    case Nil
    with ce assms show ?thesis by simp
  next
    case (Cons a rest)
    with ce assms have "a = cur" by simp
    with Cons that show ?thesis by simp
  qed
  have set_ys: "set ys = set xs"
    by (simp only: ys_def set_sort)
  have sorted_ys: "sorted (map end_date_desc_key ys)"
    by (simp only: ys_def sorted_sort_key)
  from ys set_ys have mem: "cur \<in> set xs"
    by (metis list.set_intros(1))
  from sorted_ys ys have le: "\<forall>e \<in> set rest. end_date_desc_key cur \<le> end_date_desc_key e"
    by simp
  have all: "\<forall>e \<in> set xs. end_date_desc_key cur \<le> end_date_desc_key e"
  proof
    fix e assume "e \<in> set xs"
    with set_ys have "e \<in> set ys" by simp
    with ys have "e = cur \<or> e \<in> set rest" by simp
    with le show "end_date_desc_key cur \<le> end_date_desc_key e" by auto
  qed
  from mem have "cur \<in> set es" "e_student_id cur = sid" "e_status cur = Actif"
    by (simp_all add: xs_def)
  moreover from all have "\<forall>e \<in> set es. e_student_id e = sid \<and> e_status e = Actif
                \<longrightarrow> end_date_desc_key cur \<le> end_date_desc_key e"
    by (simp add: xs_def)
  ultimately show ?thesis by simp
qed

lemma desc_key_le:
  "(end_date_desc_key a \<le> end_date_desc_key b)
     = (case e_end_date a of None \<Rightarrow> True
        | Some x \<Rightarrow> (case e_end_date b of None \<Rightarrow> False | Some y \<Rightarrow> y \<le> x))"
  by (simp add: end_date_desc_key_def split: option.splits)

lemma update_enrollment_distinct:
  assumes "distinct (map e_id es)" and "cur \<in> set es"
  shows "update_enrollment (e_id cur) f es = map (\<lambda>e. if e = cur then f cur else e) es"
proof -
  have inj: "inj_on e_id (set es)"
    using assms(1) by (simp add: distinct_map)
  have "\<And>e. e \<in> set es \<Longrightarrow> (e_id e = e_id cur) = (e = cur)"
    using inj assms(2) by (auto dest: inj_onD)
  then show ?thesis
    by (auto simp: update_enrollment_def)
qed

lemma enrollments_add_transaction: "enrollments (add_transaction t d) = enrollments d"
  by (simp add: add_transaction_def)

lemma request_date_cases:
  "request_date (Some given) now = given" "request_date None now = dt_date now"
  by (simp_all add: request_date_def)

subsection \<open>Recording a payment\<close>

text \<open>
  C1. A payment for a student who has no enrollment in status active creates exactly one
  enrollment (start = payment date, end = payment date + duration_days, status active,
  amount = the paid amount) and exactly one transaction of type gain with the paid amount.
  The payment date is the date the request names, and the clock's date when it names
  none; duration_days is 30 when the request names none. The request carries the keys
  the handler indexes, and the end date is one Python's \<^verbatim>\<open>date\<close> can hold.
\<close>

theorem record_payment_creates_enrollment:
  assumes "pr_student_id data = Some student_id"
    and "pr_amount data = Some amount"
    and "pr_payment_method data = Some pm"
    and "\<forall>e \<in> set (enrollments d). \<not> (e_student_id e = student_id \<and> e_status e = Actif)"
    and "date_val = (case pr_date data of None \<Rightarrow> dt_date now | Some given \<Rightarrow> given)"
    and "duration_days = (case pr_duration_days data of None \<Rightarrow> 30 | Some n \<Rightarrow> n)"
    and "1 \<le> date_val + duration_days"
    and "date_val + duration_days \<le> max_ordinal"
  shows "record_payment d org_id data now =
           Inr (d\<lparr>transactions := transactions d @
                    [\<lparr>t_id = transaction_seq d, t_organization_id = org_id,
                      t_student_id = Some student_id, t_date = date_val,
                      t_type = Gain, t_amount = amount, t_payment_method = pm,
                      t_reference = pr_reference data, t_category_id = None,
                      t_comment = pr_comment data\<rparr>],
                  transaction_seq := transaction_seq d + 1,
                  enrollments := enrollments d @
                    [\<lparr>e_id = enrollment_seq d, e_student_id = student_id,
                      e_organization_id = org_id, e_start_date = date_val,
                      e_end_date = Some (date_val + duration_days), e_amount = amount,
                      e_status = Actif, e_notified_at = None, e_terminated_at = None\<rparr>],
                  enrollment_seq := enrollment_seq d + 1\<rparr>)"
proof -
  have none: "current_enroll (enrollments d) student_id = None"
    using assms(4) by (simp add: current_enroll_None)
  have date: "request_date (pr_date data) now = date_val"
    using assms(5) by (simp add: request_date_def)
  have stop: "date_add date_val (case pr_duration_days data of None \<Rightarrow> 30 | Some n \<Rightarrow> n)
                = Inr (date_val + duration_days)"
    using assms(6-8) by (simp add: date_add_def)
  show ?thesis
    using assms(1-3) none date stop
    by (simp add: record_payment_def enrollments_add_transaction Let_def
        add_enrollment_row_def add_transaction_def)
qed

text \<open>
  Student 7 has a terminated enrollment only. A payment of 150.00 dated 2024-02-10
  (738926) for 14 days, recorded on 2024-03-01, creates an enrollment from 2024-02-10 to
  2024-02-24; the same payment without a date and without a duration creates one from
  2024-03-01 (the clock's date) for 30 days.
\<close>

theorem record_payment_creates_enrollment_witness:
  "pr_date (dated_payment 7 15000 738926 14) = Some 738926
   \<and> record_payment lapsed_db 1 (dated_payment 7 15000 738926 14) noon =
     Inr (lapsed_db\<lparr>transactions :=
             [\<lparr>t_id = 1, t_organization_id = 1, t_student_id = Some 7, t_date = 738926,
               t_type = Gain, t_amount = 15000, t_payment_method = Virement,
               t_reference = None, t_category_id = None, t_comment = None\<rparr>],
           transaction_seq := 2,
           enrollments :=
             [enrollment_row 1 7 1 (Some 738930) Resilie,
              \<lparr>e_id = 2, e_student_id = 7, e_organization_id = 1, e_start_date = 738926,
               e_end_date = Some 738940, e_amount = 15000, e_status = Actif,
               e_notified_at = None, e_terminated_at = None\<rparr>],
           enrollment_seq := 3\<rparr>)
   \<and> pr_date (payment_of 7 15000 None) = None
   \<and> record_payment lapsed_db 1 (payment_of 7 15000 None) noon =
     Inr (lapsed_db\<lparr>transactions :=
             [\<lparr>t_id = 1, t_organization_id = 1, t_student_id = Some 7, t_date = 738946,
               t_type = Gain, t_amount = 15000, t_payment_method = Virement,
               t_reference = None, t_category_id = None, t_comment = None\<rparr>],
           transaction_seq := 2,
           enrollments :=
             [enrollment_row 1 7 1 (Some 738930) Resilie,
              \<lparr>e_id = 2, e_student_id = 7, e_organization_id = 1, e_start_date = 738946,
               e_end_date = Some 738976, e_amount = 15000, e_status = Actif,
               e_notified_at = None, e_terminated_at = None\<rparr>],
           enrollment_seq := 3\<rparr>)"
  using record_payment_creates_enrollment
          [of "dated_payment 7 15000 738926 14" 7 15000 Virement lapsed_db 738926 noon 14 1]
        record_payment_creates_enrollment
          [of "payment_of 7 15000 None" 7 15000 Virement lapsed_db 738946 noon 30 1]
  by (simp add: dated_payment_def payment_of_def lapsed_db_def empty_db_def
      enrollment_row_def noon_def max_ordinal_def)

text \<open>
  C2 (as stated it fails, see the counterexample; amended). A payment for a student with
  at least one active enrollment changes exactly one enrollment row, the selected one:
  the first of the student's active enrollments by end date descending (a NULL end date
  sorts first). If its end date is \<open>E\<close> it becomes \<open>E + duration_days\<close>, if it is NULL
  it stays NULL; its status becomes renewed; every other row is unchanged and no row is
  added. The selected row is an active enrollment of the student, and no active
  enrollment of the student ends later.
\<close>

theorem record_payment_extends_selected:
  assumes "pr_student_id data = Some student_id"
    and "pr_amount data = Some amount"
    and "pr_payment_method data = Some pm"
    and "current_enroll (enrollments d) student_id = Some cur"
    and "distinct (map e_id (enrollments d))"
    and "duration_days = (case pr_duration_days data of None \<Rightarrow> 30 | Some n \<Rightarrow> n)"
    and "\<forall>E. e_end_date cur = Some E
            \<longrightarrow> 1 \<le> E + duration_days \<and> E + duration_days \<le> max_ordinal"
  shows "record_payment d org_id data now =
           Inr (d\<lparr>transactions := transactions d @
                    [\<lparr>t_id = transaction_seq d, t_organization_id = org_id,
                      t_student_id = Some student_id,
                      t_date = request_date (pr_date data) now,
                      t_type = Gain, t_amount = amount, t_payment_method = pm,
                      t_reference = pr_reference data, t_category_id = None,
                      t_comment = pr_comment data\<rparr>],
                  transaction_seq := transaction_seq d + 1,
                  enrollments :=
                    map (\<lambda>e. if e = cur
                             then cur\<lparr>e_end_date :=
                                        (case e_end_date cur of None \<Rightarrow> None
                                         | Some E \<Rightarrow> Some (E + duration_days)),
                                      e_status := Renouvele\<rparr>
                             else e)
                      (enrollments d)\<rparr>)
         \<and> cur \<in> set (enrollments d) \<and> e_student_id cur = student_id
         \<and> e_status cur = Actif
         \<and> (\<forall>e \<in> set (enrollments d). e_student_id e = student_id \<and> e_status e = Actif
               \<longrightarrow> (case e_end_date cur of None \<Rightarrow> True
                    | Some E \<Rightarrow> (case e_end_date e of None \<Rightarrow> False
                                 | Some E' \<Rightarrow> E' \<le> E)))"
proof -
  note sel = current_enroll_Some [OF assms(4)]
  from sel have mem: "cur \<in> set (enrollments d)" by simp
  note upd = update_enrollment_distinct [OF assms(5) mem]
  have run: "record_payment d org_id data now =
           Inr (d\<lparr>transactions := transactions d @
                    [\<lparr>t_id = transaction_seq d, t_organization_id = org_id,
                      t_student_id = Some student_id,
                      t_date = request_date (pr_date data) now,
                      t_type = Gain, t_amount = amount, t_payment_method = pm,
                      t_reference = pr_reference data, t_category_id = None,
                      t_comment = pr_comment data\<rparr>],
                  transaction_seq := transaction_seq d + 1,
                  enrollments :=
                    map (\<lambda>e. if e = cur
                             then cur\<lparr>e_end_date :=
                                        (case e_end_date cur of None \<Rightarrow> None
                                         | Some E \<Rightarrow> Some (E + duration_days)),
                                      e_status := Renouvele\<rparr>
                             else e)
                      (enrollments d)\<rparr>)"
  proof (cases "e_end_date cur")
    case None
    then show ?thesis
      using assms(1-4)
      by (simp add: record_payment_def enrollments_add_transaction upd Let_def
          add_transaction_def)
  next
    case (Some E)
    with assms(6,7)
    have "date_add E (case pr_duration_days data of None \<Rightarrow> 30 | Some n \<Rightarrow> n)
            = Inr (E + duration_days)"
      by (simp add: date_add_def)
    with Some show ?thesis
      using assms(1-4)
      by (simp add: record_payment_def enrollments_add_transaction upd Let_def
          add_transaction_def)
  qed
  from sel have "\<forall>e \<in> set (enrollments d). e_student_id e = student_id \<and> e_status e = Actif
               \<longrightarrow> (case e_end_date cur of None \<Rightarrow> True
                    | Some E \<Rightarrow> (case e_end_date e of None \<Rightarrow> False
                                 | Some E' \<Rightarrow> E' \<le> E))"
    by (simp add: desc_key_le)
  with run sel show ?thesis by simp
qed

lemma current_enroll_two_active:
  "current_enroll (enrollments two_active_db) 7 = Some (enrollment_row 2 7 1 (Some 738960) Actif)"
  by (simp add: current_enroll_def two_active_db_def empty_db_def enrollment_row_def
      end_date_desc_key_def)

lemma current_enroll_open_ended:
  "current_enroll (enrollments open_ended_db) 7 = Some (enrollment_row 2 7 1 None Actif)"
  by (simp add: current_enroll_def open_ended_db_def empty_db_def enrollment_row_def
      end_date_desc_key_def)

text \<open>
  Of two active enrollments ending 2024-03-05 and 2024-03-15 the later one is extended by
  the 30 days; an open-ended one is selected before a dated one and keeps its NULL.
\<close>

theorem record_payment_extends_selected_witness:
  "map (\<lambda>e. (e_id e, e_end_date e, e_status e))
     (enrollments (db_after two_active_db
        (record_payment two_active_db 1 (payment_of 7 15000 None) noon)))
     = [(1, Some 738950, Actif), (2, Some 738990, Renouvele)]
   \<and> map (\<lambda>e. (e_id e, e_end_date e, e_status e))
     (enrollments (db_after open_ended_db
        (record_payment open_ended_db 1 (payment_of 7 15000 (Some 14)) noon)))
     = [(1, Some 738960, Actif), (2, None, Renouvele)]"
  using record_payment_extends_selected
          [of "payment_of 7 15000 None" 7 15000 Virement two_active_db
              "enrollment_row 2 7 1 (Some 738960) Actif" 30 1 noon]
        record_payment_extends_selected
          [of "payment_of 7 15000 (Some 14)" 7 15000 Virement open_ended_db
              "enrollment_row 2 7 1 None Actif" 14 1 noon]
        current_enroll_two_active current_enroll_open_ended
  by (simp add: payment_of_def two_active_db_def open_ended_db_def empty_db_def
      enrollment_row_def db_after_def max_ordinal_def)

text \<open>
  The claim as stated promises the extension for every active enrollment of the student
  with a non-null end date. Here student 7 has two; after a payment for 30 days the one
  ending 2024-03-05 (738950) still ends that day and is still active.
\<close>

theorem record_payment_extends_every_active_counterexample:
  "e_student_id (enrollment_row 1 7 1 (Some 738950) Actif) = 7
   \<and> e_status (enrollment_row 1 7 1 (Some 738950) Actif) = Actif
   \<and> e_end_date (enrollment_row 1 7 1 (Some 738950) Actif) = Some 738950
   \<and> enrollments two_active_db ! 0 = enrollment_row 1 7 1 (Some 738950) Actif
   \<and> (case record_payment two_active_db 1 (payment_of 7 15000 (Some 30)) noon of
        Inl err \<Rightarrow> False
      | Inr d' \<Rightarrow> enrollments d' ! 0 = enrollment_row 1 7 1 (Some 738950) Actif
                  \<and> e_end_date (enrollments d' ! 0) \<noteq> Some (738950 + 30)
                  \<and> e_status (enrollments d' ! 0) \<noteq> Renouvele)"
  by (simp add: record_payment_def payment_of_def two_active_db_def empty_db_def
      enrollment_row_def add_transaction_def current_enroll_def end_date_desc_key_def
      update_enrollment_def date_add_def max_ordinal_def request_date_def)

subsection \<open>Rows addressed by primary key\<close>

lemma find_by_id:
  assumes "distinct (map e_id es)" and "e \<in> set es" and "P e"
  shows "find (\<lambda>r. e_id r = e_id e \<and> P r) es = Some e"
  using assms
proof (induction es)
  case Nil
  then show ?case by simp
next
  case (Cons x xs)
  show ?case
  proof (cases "x = e")
    case True
    with Cons.prems(3) show ?thesis by simp
  next
    case False
    with Cons.prems have "e \<in> set xs" and "e_id x \<noteq> e_id e"
      by auto
    with Cons show ?thesis by simp
  qed
qed

lemma distinct_update_enrollment:
  assumes "\<And>r. e_id (f r) = e_id r"
  shows "map e_id (update_enrollment k f es) = map e_id es"
  by (simp add: update_enrollment_def assms cong: if_cong)

lemma update_enrollment_keeps:
  assumes "e \<in> set es" and "e_id e \<noteq> k"
  shows "e \<in> set (update_enrollment k f es)"
proof -
  have "(if e_id e = k then f e else e) \<in> set (update_enrollment k f es)"
    unfolding update_enrollment_def using assms(1) by (simp only: set_map image_eqI)
  with assms(2) show ?thesis by simp
qed

subsection \<open>Termination\<close>

text \<open>
  C6. For every enrollment of the caller's organization, \<open>terminate_enrollment\<close> sets its
  status to terminated and its \<open>terminated_at\<close> to the clock's reading, leaving every other
  row alone; a second call on the same enrollment succeeds again and leaves the status
  terminated (it stamps \<open>terminated_at\<close> anew).
\<close>

theorem terminate_enrollment_terminal:
  assumes "e \<in> set (enrollments d)"
    and "e_organization_id e = org_id"
    and "distinct (map e_id (enrollments d))"
    and "d1 = d\<lparr>enrollments :=
                  map (\<lambda>r. if r = e then e\<lparr>e_status := Resilie, e_terminated_at := Some now\<rparr>
                           else r) (enrollments d)\<rparr>"
  shows "terminate_enrollment d org_id (e_id e) now = Inr d1
         \<and> terminate_enrollment d1 org_id (e_id e) now' =
             Inr (d\<lparr>enrollments :=
                     map (\<lambda>r. if r = e
                              then e\<lparr>e_status := Resilie, e_terminated_at := Some now'\<rparr>
                              else r) (enrollments d)\<rparr>)"
proof -
  let ?stamp = "\<lambda>t r. r\<lparr>e_status := Resilie, e_terminated_at := Some t\<rparr>"
  have found: "find (\<lambda>r. e_id r = e_id e \<and> e_organization_id r = org_id) (enrollments d) = Some e"
    using find_by_id [OF assms(3) assms(1), of "\<lambda>r. e_organization_id r = org_id"] assms(2)
    by simp
  have first: "terminate_enrollment d org_id (e_id e) now = Inr d1"
    using found
    by (simp add: terminate_enrollment_def assms(4)
        update_enrollment_distinct [OF assms(3) assms(1)])
  let ?e1 = "?stamp now e"
  have es1: "enrollments d1 = update_enrollment (e_id e) (?stamp now) (enrollments d)"
    by (simp add: assms(4) update_enrollment_distinct [OF assms(3) assms(1)])
  have dist1: "distinct (map e_id (enrollments d1))"
    using assms(3) by (simp add: es1 distinct_update_enrollment)
  have mem1: "?e1 \<in> set (enrollments d1)"
    using assms(1) by (auto simp: assms(4))
  have found1: "find (\<lambda>r. e_id r = e_id e \<and> e_organization_id r = org_id) (enrollments d1)
                  = Some ?e1"
    using find_by_id [OF dist1 mem1, of "\<lambda>r. e_organization_id r = org_id"] assms(2)
    by simp
  have twice: "update_enrollment (e_id e) (?stamp now') (enrollments d1)
                 = update_enrollment (e_id e) (?stamp now') (enrollments d)"
    by (simp add: es1 update_enrollment_def)
  have "terminate_enrollment d1 org_id (e_id e) now' =
          Inr (d1\<lparr>enrollments := update_enrollment (e_id e) (?stamp now') (enrollments d)\<rparr>)"
    using found1 by (simp add: terminate_enrollment_def twice)
  then have second: "terminate_enrollment d1 org_id (e_id e) now' =
             Inr (d\<lparr>enrollments :=
                     map (\<lambda>r. if r = e
                              then e\<lparr>e_status := Resilie, e_terminated_at := Some now'\<rparr>
                              else r) (enrollments d)\<rparr>)"
    by (simp add: assms(4) update_enrollment_distinct [OF assms(3) assms(1)])
  from first second show ?thesis by simp
qed

text \<open>Organization 2 terminates its enrollment 1 at noon and again in the evening.\<close>

theorem terminate_enrollment_terminal_witness:
  "terminate_enrollment two_org_db 2 1 noon =
     Inr (two_org_db\<lparr>enrollments :=
            [(enrollment_row 1 8 2 (Some 738960) Resilie)\<lparr>e_terminated_at := Some noon\<rparr>]\<rparr>)
   \<and> terminate_enrollment
       (two_org_db\<lparr>enrollments :=
            [(enrollment_row 1 8 2 (Some 738960) Resilie)\<lparr>e_terminated_at := Some noon\<rparr>]\<rparr>)
       2 1 later =
     Inr (two_org_db\<lparr>enrollments :=
            [(enrollment_row 1 8 2 (Some 738960) Resilie)\<lparr>e_terminated_at := Some later\<rparr>]\<rparr>)"
  using terminate_enrollment_terminal
          [of "enrollment_row 1 8 2 (Some 738960) Actif" two_org_db 2
              "two_org_db\<lparr>enrollments :=
                 [(enrollment_row 1 8 2 (Some 738960) Resilie)\<lparr>e_terminated_at := Some noon\<rparr>]\<rparr>"
              noon later]
  by (simp add: two_org_db_def empty_db_def enrollment_row_def)

subsection \<open>Terminated enrollments under payment and renewal\<close>

lemma record_payment_enrollments:
  assumes "record_payment d org_id data now = Inr d'"
  shows "(\<exists>cur f. e_status cur = Actif \<and> cur \<in> set (enrollments d)
            \<and> enrollments d' = update_enrollment (e_id cur) f (enrollments d))
         \<or> (\<exists>new. enrollments d' = enrollments d @ [new])"
proof -
  from assms obtain sid where sid: "pr_student_id data = Some sid"
    by (cases "pr_student_id data") (simp_all add: record_payment_def)
  from assms sid obtain amount where amount: "pr_amount data = Some amount"
    by (cases "pr_amount data") (simp_all add: record_payment_def)
  from assms sid amount obtain pm where pm: "pr_payment_method data = Some pm"
    by (cases "pr_payment_method data") (simp_all add: record_payment_def Let_def)
  show ?thesis
  proof (cases "current_enroll (enrollments d) sid")
    case None
    with assms sid amount pm show ?thesis
      by (auto simp: record_payment_def Let_def enrollments_add_transaction
          add_enrollment_row_def add_transaction_def split: sum.splits)
  next
    case (Some cur)
    note sel = current_enroll_Some [OF Some]
    show ?thesis
    proof (cases "e_end_date cur")
      case None
      with assms sid amount pm Some
      have "enrollments d' = update_enrollment (e_id cur) (\<lambda>e. e\<lparr>e_status := Renouvele\<rparr>)
                               (enrollments d)"
        by (auto simp: record_payment_def Let_def enrollments_add_transaction
            add_transaction_def)
      with sel show ?thesis by blast
    next
      case (Some ed)
      with assms sid amount pm \<open>current_enroll (enrollments d) sid = Some cur\<close>
      obtain ed' where
        "enrollments d' = update_enrollment (e_id cur)
                            (\<lambda>e. e\<lparr>e_end_date := Some ed', e_status := Renouvele\<rparr>)
                            (enrollments d)"
        by (auto simp: record_payment_def Let_def enrollments_add_transaction
            add_transaction_def split: sum.splits)
      with sel show ?thesis by blast
    qed
  qed
qed

text \<open>
  C7 (as stated it fails for renewal, see the counterexample; amended). For every
  enrollment whose status is terminated: a payment, whatever its student, leaves the row
  exactly as it was; a renewal of that enrollment by its organization leaves its end date
  and \<open>terminated_at\<close> as they were, but sets its status to renewed and adds a new active
  enrollment for the student.
\<close>

theorem terminated_under_payment_and_renewal:
  assumes "e \<in> set (enrollments d)"
    and "e_status e = Resilie"
    and "distinct (map e_id (enrollments d))"
    and "e_organization_id e = org_id"
    and "duration_days = (case rr_duration_days rq of None \<Rightarrow> 30 | Some n \<Rightarrow> n)"
    and "new_start = (case e_end_date e of None \<Rightarrow> dt_date now | Some ed \<Rightarrow> ed + 1)"
    and "e_end_date e \<noteq> None \<longrightarrow> 1 \<le> new_start \<and> new_start \<le> max_ordinal"
    and "1 \<le> new_start + duration_days \<and> new_start + duration_days \<le> max_ordinal"
  shows "e \<in> set (enrollments (db_after d (record_payment d any_org data now)))
         \<and> renew_enrollment d org_id (e_id e) rq now =
             Inr (d\<lparr>enrollments :=
                     map (\<lambda>r. if r = e then e\<lparr>e_status := Renouvele\<rparr> else r) (enrollments d)
                       @ [\<lparr>e_id = enrollment_seq d, e_student_id = e_student_id e,
                           e_organization_id = org_id, e_start_date = new_start,
                           e_end_date = Some (new_start + duration_days),
                           e_amount = (case rr_amount rq of None \<Rightarrow> e_amount e
                                       | Some a \<Rightarrow> a),
                           e_status = Actif, e_notified_at = None,
                           e_terminated_at = None\<rparr>],
                    enrollment_seq := enrollment_seq d + 1\<rparr>,
                  enrollment_seq d)"
proof -
  have pay: "e \<in> set (enrollments (db_after d (record_payment d any_org data now)))"
  proof (cases "record_payment d any_org data now")
    case (Inl err)
    with assms(1) show ?thesis by (simp add: db_after_def)
  next
    case (Inr d')
    from record_payment_enrollments [OF Inr] show ?thesis
    proof
      assume "\<exists>cur f. e_status cur = Actif \<and> cur \<in> set (enrollments d)
                \<and> enrollments d' = update_enrollment (e_id cur) f (enrollments d)"
      then obtain cur f where cur: "e_status cur = Actif" "cur \<in> set (enrollments d)"
        and upd: "enrollments d' = update_enrollment (e_id cur) f (enrollments d)"
        by blast
      from cur assms(2) have "cur \<noteq> e" by auto
      with cur(2) assms(1,3) have "e_id e \<noteq> e_id cur"
        by (auto simp: distinct_map dest: inj_onD)
      with assms(1) upd have "e \<in> set (enrollments d')"
        by (simp add: update_enrollment_keeps)
      with Inr show ?thesis by (simp add: db_after_def)
    next
      assume "\<exists>new. enrollments d' = enrollments d @ [new]"
      with assms(1) Inr show ?thesis by (auto simp: db_after_def)
    qed
  qed
  have found: "find (\<lambda>r. e_id r = e_id e \<and> e_organization_id r = org_id) (enrollments d) = Some e"
    using find_by_id [OF assms(3) assms(1), of "\<lambda>r. e_organization_id r = org_id"] assms(4)
    by simp
  have start: "(case e_end_date e of Some ed \<Rightarrow> date_add ed 1 | None \<Rightarrow> Inr (dt_date now))
                 = Inr new_start"
    using assms(6,7) by (cases "e_end_date e") (simp_all add: date_add_def)
  have stop: "date_add new_start (case rr_duration_days rq of None \<Rightarrow> 30 | Some n \<Rightarrow> n)
                = Inr (new_start + duration_days)"
    using assms(5,8) by (simp add: date_add_def)
  have renew: "renew_enrollment d org_id (e_id e) rq now =
             Inr (d\<lparr>enrollments :=
                     map (\<lambda>r. if r = e then e\<lparr>e_status := Renouvele\<rparr> else r) (enrollments d)
                       @ [\<lparr>e_id = enrollment_seq d, e_student_id = e_student_id e,
                           e_organization_id = org_id, e_start_date = new_start,
                           e_end_date = Some (new_start + duration_days),
                           e_amount = (case rr_amount rq of None \<Rightarrow> e_amount e
                                       | Some a \<Rightarrow> a),
                           e_status = Actif, e_notified_at = None,
                           e_terminated_at = None\<rparr>],
                    enrollment_seq := enrollment_seq d + 1\<rparr>,
                  enrollment_seq d)"
    using found start stop
    by (simp add: renew_enrollment_def Let_def add_enrollment_row_def
        update_enrollment_distinct [OF assms(3) assms(1)])
  from pay renew show ?thesis by simp
qed

text \<open>
  Student 7's terminated enrollment (ended 2024-02-14) survives a payment for student 7
  untouched, and is marked renewed by a renewal, which adds an enrollment from 2024-02-15
  to 2024-03-16.
\<close>

theorem terminated_under_payment_and_renewal_witness:
  "enrollment_row 1 7 1 (Some 738930) Resilie
     \<in> set (enrollments (db_after lapsed_db
              (record_payment lapsed_db 1 (payment_of 7 15000 None) noon)))
   \<and> renew_enrollment lapsed_db 1 1 renew_default noon =
       Inr (lapsed_db\<lparr>enrollments :=
              [enrollment_row 1 7 1 (Some 738930) Renouvele,
               (enrollment_row 2 7 1 (Some 738961) Actif)\<lparr>e_start_date := 738931\<rparr>],
              enrollment_seq := 3\<rparr>, 2)"
  using terminated_under_payment_and_renewal
          [of "enrollment_row 1 7 1 (Some 738930) Resilie" lapsed_db 1 30 renew_default
              738931 noon 1 "payment_of 7 15000 None"]
  by (simp add: lapsed_db_def empty_db_def enrollment_row_def renew_default_def
      max_ordinal_def)

text \<open>
  The claim as stated says a renewal never changes the status of a terminated
  enrollment. Enrollment 1 is terminated; after its renewal its status is renewed.
\<close>

theorem renew_resurrects_terminated_counterexample:
  "e_id (enrollments lapsed_db ! 0) = 1
   \<and> e_status (enrollments lapsed_db ! 0) = Resilie
   \<and> (case renew_enrollment lapsed_db 1 1 renew_default noon of
        Inl err \<Rightarrow> False
      | Inr (d', new_id) \<Rightarrow> e_id (enrollments d' ! 0) = 1
                            \<and> e_status (enrollments d' ! 0) = Renouvele)"
  by (simp add: renew_enrollment_def lapsed_db_def empty_db_def enrollment_row_def
      renew_default_def update_enrollment_def add_enrollment_row_def date_add_def
      max_ordinal_def)

subsection \<open>Tenant scoping of a payment\<close>

text \<open>
  C8 (the handler breaks the claim). Organization 1 records a payment naming student 8,
  who belongs to organization 2: the handler selects organization 2's enrollment,
  extends it by 30 days and marks it renewed, and files the gain under organization 1.
\<close>

theorem record_payment_crosses_organizations:
  "record_payment two_org_db 1 (payment_of 8 15000 None) noon =
     Inr (two_org_db\<lparr>transactions :=
            [\<lparr>t_id = 1, t_organization_id = 1, t_student_id = Some 8, t_date = 738946,
              t_type = Gain, t_amount = 15000, t_payment_method = Virement,
              t_reference = None, t_category_id = None, t_comment = None\<rparr>],
          transaction_seq := 2,
          enrollments := [enrollment_row 1 8 2 (Some 738990) Renouvele]\<rparr>)"
  by (simp add: record_payment_def payment_of_def two_org_db_def empty_db_def
      enrollment_row_def add_transaction_def current_enroll_def end_date_desc_key_def
      update_enrollment_def date_add_def max_ordinal_def request_date_def noon_def)

text \<open>
  The sibling handler \<open>add_enrollment\<close> checks the student against the caller's
  organization first and answers 404 for the same student.
\<close>

lemma add_enrollment_checks_organization:
  "add_enrollment two_org_db 1
     \<lparr>nr_student_id = Some 8, nr_start_date = Some 738946, nr_end_date = None,
      nr_amount = Some 15000, nr_status = None\<rparr> = Inl NotFound"
  by (simp add: add_enrollment_def two_org_db_def empty_db_def)

subsection \<open>Expiration check\<close>

lemma max_threshold_7: "max_threshold = 7"
  by (simp add: max_threshold_def thresholds_def)

lemma update_enrollment_stamp_set:
  "update_enrollment k (\<lambda>r. r\<lparr>e_notified_at := Some now\<rparr>)
     (map (\<lambda>r. if e_id r \<in> S then r\<lparr>e_notified_at := Some now\<rparr> else r) tbl)
   = map (\<lambda>r. if e_id r \<in> insert k S then r\<lparr>e_notified_at := Some now\<rparr> else r) tbl"
  by (simp add: update_enrollment_def)

text \<open>
  The loop stamps, by primary key, the rows whose id is the id of a visited row with
  \<open>days_left\<close> among the thresholds, and lists those ids in the order visited.
\<close>

lemma notify_loop_eq:
  assumes "\<forall>e \<in> set xs. e_end_date e \<noteq> None"
  shows "notify_loop now today xs
           (map (\<lambda>r. if e_id r \<in> S then r\<lparr>e_notified_at := Some now\<rparr> else r) tbl) acc
         = Inr (map (\<lambda>r. if e_id r \<in> S \<union> e_id ` {e \<in> set xs.
                                             the (e_end_date e) - today \<in> set thresholds}
                         then r\<lparr>e_notified_at := Some now\<rparr> else r) tbl,
                acc @ map e_id (filter (\<lambda>e. the (e_end_date e) - today \<in> set thresholds) xs))"
  using assms
proof (induction xs arbitrary: S acc)
  case Nil
  then show ?case by simp
next
  case (Cons x xs)
  let ?due = "\<lambda>e. the (e_end_date e) - today \<in> set thresholds"
  let ?stamped = "\<lambda>S. map (\<lambda>r. if e_id r \<in> S then r\<lparr>e_notified_at := Some now\<rparr> else r) tbl"
  from Cons.prems obtain ed where ed: "e_end_date x = Some ed" by auto
  from Cons.prems have rest: "\<forall>e \<in> set xs. e_end_date e \<noteq> None" by simp
  show ?case
  proof (cases "ed - today \<in> set thresholds")
    case True
    have S: "insert (e_id x) S \<union> e_id ` {e \<in> set xs. ?due e}
             = S \<union> e_id ` {e \<in> set (x # xs). ?due e}"
      using True ed by auto
    have acc: "(acc @ [e_id x]) @ map e_id (filter ?due xs)
                 = acc @ map e_id (filter ?due (x # xs))"
      using True ed by simp
    have "notify_loop now today (x # xs) (?stamped S) acc
            = notify_loop now today xs
                (update_enrollment (e_id x) (\<lambda>r. r\<lparr>e_notified_at := Some now\<rparr>) (?stamped S))
                (acc @ [e_id x])"
      using True ed by (simp add: Let_def)
    also have "\<dots> = notify_loop now today xs (?stamped (insert (e_id x) S)) (acc @ [e_id x])"
      by (simp only: update_enrollment_stamp_set)
    also have "\<dots> = Inr (?stamped (insert (e_id x) S \<union> e_id ` {e \<in> set xs. ?due e}),
                          (acc @ [e_id x]) @ map e_id (filter ?due xs))"
      by (rule Cons.IH [OF rest])
    finally show ?thesis
      by (simp only: S acc)
  next
    case False
    have S: "S \<union> e_id ` {e \<in> set xs. ?due e} = S \<union> e_id ` {e \<in> set (x # xs). ?due e}"
      using False ed by auto
    have acc: "acc @ map e_id (filter ?due xs) = acc @ map e_id (filter ?due (x # xs))"
      using False ed by simp
    have "notify_loop now today (x # xs) (?stamped S) acc
            = notify_loop now today xs (?stamped S) acc"
      using False ed by (simp add: Let_def)
    also have "\<dots> = Inr (?stamped (S \<union> e_id ` {e \<in> set xs. ?due e}),
                          acc @ map e_id (filter ?due xs))"
      by (rule Cons.IH [OF rest])
    finally show ?thesis
      by (simp only: S acc)
  qed
qed

lemma expiring_end_date: "\<forall>e \<in> set (expiring es org_id today). e_end_date e \<noteq> None"
  by (auto simp: expiring_def split: option.splits)

lemma expiring_due_iff:
  "(e \<in> set (expiring es org_id today) \<and> the (e_end_date e) - today \<in> set thresholds)
     = (e \<in> set es \<and> eligible org_id today e)"
  by (auto simp: expiring_def eligible_def thresholds_def max_threshold_7 before_date_def
      split: option.splits)

lemma filter_expiring_due:
  "filter (\<lambda>e. the (e_end_date e) - today \<in> set thresholds) (expiring es org_id today)
     = filter (eligible org_id today) es"
proof -
  have "filter (\<lambda>e. the (e_end_date e) - today \<in> set thresholds) (expiring es org_id today)
          = filter (\<lambda>e. e \<in> set (expiring es org_id today)
                        \<and> the (e_end_date e) - today \<in> set thresholds) es"
    by (simp add: expiring_def conj_commute cong: conj_cong filter_cong)
  also have "\<dots> = filter (\<lambda>e. e \<in> set es \<and> eligible org_id today e) es"
    by (simp only: expiring_due_iff)
  also have "\<dots> = filter (eligible org_id today) es"
    by (rule filter_cong) simp_all
  finally show ?thesis .
qed

lemma check_expirations_eq:
  "check_expirations d org_id now =
     Inr (d\<lparr>enrollments :=
             map (\<lambda>r. if e_id r \<in> e_id ` {e \<in> set (enrollments d). eligible org_id (dt_date now) e}
                      then r\<lparr>e_notified_at := Some now\<rparr> else r) (enrollments d)\<rparr>,
          map e_id (filter (eligible org_id (dt_date now)) (enrollments d)))"
proof -
  let ?today = "dt_date now"
  let ?xs = "expiring (enrollments d) org_id ?today"
  have tbl: "enrollments d
               = map (\<lambda>r. if e_id r \<in> {} then r\<lparr>e_notified_at := Some now\<rparr> else r) (enrollments d)"
    by simp
  have set_eq: "{e \<in> set ?xs. the (e_end_date e) - ?today \<in> set thresholds}
                  = {e \<in> set (enrollments d). eligible org_id ?today e}"
    using expiring_due_iff [of _ "enrollments d" org_id ?today] by blast
  have "notify_loop now ?today ?xs (enrollments d) []
          = Inr (map (\<lambda>r. if e_id r \<in> {} \<union> e_id ` {e \<in> set ?xs.
                                   the (e_end_date e) - ?today \<in> set thresholds}
                         then r\<lparr>e_notified_at := Some now\<rparr> else r) (enrollments d),
                 [] @ map e_id (filter (\<lambda>e. the (e_end_date e) - ?today \<in> set thresholds) ?xs))"
    using notify_loop_eq [where xs = ?xs and S = "{}" and tbl = "enrollments d"
        and acc = "[]" and now = now and today = ?today, OF expiring_end_date]
    by (simp only: tbl [symmetric])
  then show ?thesis
    by (simp add: check_expirations_def set_eq filter_expiring_due Let_def)
qed

lemma eligible_id_distinct:
  assumes "distinct (map e_id es)" and "r \<in> set es"
  shows "(e_id r \<in> e_id ` {e \<in> set es. eligible org_id today e}) = eligible org_id today r"
proof -
  have inj: "inj_on e_id (set es)"
    using assms(1) by (simp add: distinct_map)
  show ?thesis
  proof
    assume "e_id r \<in> e_id ` {e \<in> set es. eligible org_id today e}"
    then obtain e where e: "e \<in> set es" "eligible org_id today e" "e_id r = e_id e"
      by auto
    from inj assms(2) e(1,3) have "r = e" by (auto dest: inj_onD)
    with e(2) show "eligible org_id today r" by simp
  next
    assume "eligible org_id today r"
    with assms(2) show "e_id r \<in> e_id ` {e \<in> set es. eligible org_id today e}"
      by blast
  qed
qed

lemma stamped_not_eligible:
  "dt_date now = today \<Longrightarrow> \<not> eligible org_id today (r\<lparr>e_notified_at := Some now\<rparr>)"
  by (simp add: eligible_def)

text \<open>
  C5. \<open>check_expirations\<close> returns exactly the ids (in table order) of the enrollments of
  the organization that are active, have a non-null end date, have \<open>notified_at\<close> null or
  before today, and whose \<open>days_left\<close> is one of 0, 1, 3, 7 (the predicate \<open>eligible\<close>,
  written from the specification); exactly those rows get \<open>notified_at = now\<close>, and every
  other row is left as it was.
\<close>

theorem check_expirations_exact:
  assumes "distinct (map e_id (enrollments d))"
  shows "check_expirations d org_id now =
           Inr (d\<lparr>enrollments :=
                   map (\<lambda>r. if eligible org_id (dt_date now) r
                            then r\<lparr>e_notified_at := Some now\<rparr> else r) (enrollments d)\<rparr>,
                map e_id (filter (eligible org_id (dt_date now)) (enrollments d)))"
proof -
  have "map (\<lambda>r. if e_id r \<in> e_id ` {e \<in> set (enrollments d). eligible org_id (dt_date now) e}
                  then r\<lparr>e_notified_at := Some now\<rparr> else r) (enrollments d)
          = map (\<lambda>r. if eligible org_id (dt_date now) r
                      then r\<lparr>e_notified_at := Some now\<rparr> else r) (enrollments d)"
    by (rule map_cong) (simp_all add: eligible_id_distinct [OF assms])
  then show ?thesis
    by (simp only: check_expirations_eq)
qed

text \<open>
  On 2024-03-01 organization 1 is told about enrollment 1 (3 days left) and enrollment 4
  (0 days left, stamped yesterday); enrollment 2 (5 days left), enrollment 3 (another
  organization) and enrollment 5 (stamped this morning) are left alone.
\<close>

theorem check_expirations_exact_witness:
  "distinct (map e_id (enrollments expiring_db))
   \<and> check_expirations expiring_db 1 noon =
       Inr (expiring_db\<lparr>enrollments :=
              [(enrollment_row 1 7 1 (Some 738949) Actif)\<lparr>e_notified_at := Some noon\<rparr>,
               enrollment_row 2 9 1 (Some 738951) Actif,
               enrollment_row 3 8 2 (Some 738953) Actif,
               (enrollment_row 4 10 1 (Some 738946) Actif)\<lparr>e_notified_at := Some noon\<rparr>,
               (enrollment_row 5 11 1 (Some 738947) Actif)
                  \<lparr>e_notified_at := Some \<lparr>dt_date = 738946, dt_micros = 1\<rparr>\<rparr>]\<rparr>,
            [1, 4])"
proof -
  have h: "distinct (map e_id (enrollments expiring_db))"
    by (simp add: expiring_db_def empty_db_def enrollment_row_def)
  show ?thesis
    using h check_expirations_exact [OF h, of 1 noon]
    by (simp add: expiring_db_def empty_db_def enrollment_row_def eligible_def noon_def)
qed

text \<open>
  C4. A second \<open>check_expirations\<close> on the same calendar day, run on the store the first
  one left, returns an empty list and changes nothing.
\<close>

theorem check_expirations_idempotent:
  assumes "check_expirations d org_id now = Inr (d1, notified)"
    and "dt_date now' = dt_date now"
  shows "check_expirations d1 org_id now' = Inr (d1, [])"
proof -
  let ?today = "dt_date now"
  let ?S = "e_id ` {e \<in> set (enrollments d). eligible org_id ?today e}"
  from assms(1) have d1: "d1 = d\<lparr>enrollments :=
             map (\<lambda>r. if e_id r \<in> ?S then r\<lparr>e_notified_at := Some now\<rparr> else r)
               (enrollments d)\<rparr>"
    by (simp add: check_expirations_eq)
  have none: "\<not> eligible org_id ?today r'" if "r' \<in> set (enrollments d1)" for r'
  proof -
    from that d1 obtain r where r: "r \<in> set (enrollments d)"
      and r': "r' = (if e_id r \<in> ?S then r\<lparr>e_notified_at := Some now\<rparr> else r)"
      by auto
    show ?thesis
    proof (cases "e_id r \<in> ?S")
      case True
      with r' show ?thesis by (simp add: stamped_not_eligible)
    next
      case False
      with r have "\<not> eligible org_id ?today r" by blast
      with False r' show ?thesis by simp
    qed
  qed
  then have empty: "{e \<in> set (enrollments d1). eligible org_id ?today e} = {}"
    by blast
  from none have nil: "filter (eligible org_id ?today) (enrollments d1) = []"
    by (simp add: filter_empty_conv)
  have "check_expirations d1 org_id now' =
          Inr (d1\<lparr>enrollments :=
                  map (\<lambda>r. if e_id r \<in> e_id ` {e \<in> set (enrollments d1). eligible org_id ?today e}
                           then r\<lparr>e_notified_at := Some now'\<rparr> else r) (enrollments d1)\<rparr>,
               map e_id (filter (eligible org_id ?today) (enrollments d1)))"
    by (simp only: check_expirations_eq assms(2))
  then show ?thesis
    by (simp add: empty nil)
qed

lemma check_expirations_total: "\<exists>d1 notified. check_expirations d org_id now = Inr (d1, notified)"
  by (simp add: check_expirations_eq)

text \<open>The check of 2024-03-01 at noon, repeated that evening, notifies nobody.\<close>

theorem check_expirations_idempotent_witness:
  "check_expirations expiring_db 1 noon =
     Inr (expiring_db\<lparr>enrollments :=
            [(enrollment_row 1 7 1 (Some 738949) Actif)\<lparr>e_notified_at := Some noon\<rparr>,
             enrollment_row 2 9 1 (Some 738951) Actif,
             enrollment_row 3 8 2 (Some 738953) Actif,
             (enrollment_row 4 10 1 (Some 738946) Actif)\<lparr>e_notified_at := Some noon\<rparr>,
             (enrollment_row 5 11 1 (Some 738947) Actif)
                \<lparr>e_notified_at := Some \<lparr>dt_date = 738946, dt_micros = 1\<rparr>\<rparr>]\<rparr>,
          [1, 4])
   \<and> dt_date later = dt_date noon
   \<and> check_expirations
       (expiring_db\<lparr>enrollments :=
            [(enrollment_row 1 7 1 (Some 738949) Actif)\<lparr>e_notified_at := Some noon\<rparr>,
             enrollment_row 2 9 1 (Some 738951) Actif,
             enrollment_row 3 8 2 (Some 738953) Actif,
             (enrollment_row 4 10 1 (Some 738946) Actif)\<lparr>e_notified_at := Some noon\<rparr>,
             (enrollment_row 5 11 1 (Some 738947) Actif)
                \<lparr>e_notified_at := Some \<lparr>dt_date = 738946, dt_micros = 1\<rparr>\<rparr>]\<rparr>)
       1 later =
     Inr (expiring_db\<lparr>enrollments :=
            [(enrollment_row 1 7 1 (Some 738949) Actif)\<lparr>e_notified_at := Some noon\<rparr>,
             enrollment_row 2 9 1 (Some 738951) Actif,
             enrollment_row 3 8 2 (Some 738953) Actif,
             (enrollment_row 4 10 1 (Some 738946) Actif)\<lparr>e_notified_at := Some noon\<rparr>,
             (enrollment_row 5 11 1 (Some 738947) Actif)
                \<lparr>e_notified_at := Some \<lparr>dt_date = 738946, dt_micros = 1\<rparr>\<rparr>]\<rparr>,
          [])"
proof -
  have first: "check_expirations expiring_db 1 noon =
     Inr (expiring_db\<lparr>enrollments :=
            [(enrollment_row 1 7 1 (Some 738949) Actif)\<lparr>e_notified_at := Some noon\<rparr>,
             enrollment_row 2 9 1 (Some 738951) Actif,
             enrollment_row 3 8 2 (Some 738953) Actif,
             (enrollment_row 4 10 1 (Some 738946) Actif)\<lparr>e_notified_at := Some noon\<rparr>,
             (enrollment_row 5 11 1 (Some 738947) Actif)
                \<lparr>e_notified_at := Some \<lparr>dt_date = 738946, dt_micros = 1\<rparr>\<rparr>]\<rparr>,
          [1, 4])"
    by (simp add: check_expirations_def expiring_def expiring_db_def empty_db_def
        enrollment_row_def noon_def thresholds_def max_threshold_7 before_date_def
        update_enrollment_def Let_def)
  have same: "dt_date later = dt_date noon"
    by (simp add: later_def noon_def)
  from first same check_expirations_idempotent [OF first same] show ?thesis
    by simp
qed

subsection \<open>Reports\<close>

lemma ord2ymd_738950: "ord2ymd 738950 = (2024, 3, 5)"
  by (simp add: ord2ymd_def Let_def DAYS_BEFORE_MONTH_def DAYS_IN_MONTH_def)

lemma ord2ymd_738955: "ord2ymd 738955 = (2024, 3, 10)"
  by (simp add: ord2ymd_def Let_def DAYS_BEFORE_MONTH_def DAYS_IN_MONTH_def)

lemma py_sum_floats:
  "py_sum (PyFloat a) (map (\<lambda>(l, t). PyFloat (f t)) rows)
     = Inr (PyFloat (a + sum_list (map (\<lambda>(l, t). f t) rows)))"
  by (induction rows arbitrary: a) (auto simp: add.assoc)

lemma py_sum_from_zero:
  "py_sum (PyInt 0) (map (\<lambda>(l, t). PyFloat (f t)) rows)
     = Inr (if rows = [] then PyInt 0
            else PyFloat (sum_list (map (\<lambda>(l, t). f t) rows)))"
proof (cases rows)
  case Nil
  then show ?thesis by simp
next
  case (Cons r rs)
  obtain l t where r: "r = (l, t)" by (cases r)
  show ?thesis
    using py_sum_floats [of "f t" f rs]
    by (simp add: Cons r)
qed

text \<open>
  Whenever the month has gains that do not sum to zero and at least one expense in a
  category, the handler adds a \<^verbatim>\<open>Decimal\<close> to a \<^verbatim>\<open>float\<close> at line 718 and raises.
\<close>

lemma monthly_report_type_error:
  assumes "year_arg = Some year" and "month_arg = Some month"
    and "gains_query d org_id (\<lambda>dt. year_of dt = year \<and> month_of dt = month) = PyDecimal g"
    and "expenses_by_cat d org_id (\<lambda>dt. year_of dt = year \<and> month_of dt = month) \<noteq> []"
  shows "monthly_report d org_id year_arg month_arg now = Inl TypeError"
  using assms
  by (simp add: monthly_report_def Let_def py_sum_from_zero)

text \<open>
  C9 (the handler breaks the claim). Gains of 500.00 and expenses of 120.00 in category
  ``Loyer'' in March 2024: the claim promises gains 500, total_expenses -120 and
  profit_loss 380; the handler raises TypeError.
\<close>

theorem monthly_report_raises:
  "monthly_report march_db 1 (Some 2024) (Some 3) noon = Inl TypeError"
  by (simp add: monthly_report_def Let_def march_db_def empty_db_def gain_row_def
      expense_row_def gains_query_def expenses_by_cat_def group_by_label_def
      sql_sum_def or_zero_float_def year_of_def month_of_def
      ord2ymd_738950 ord2ymd_738955)
lemma py_float_or_zero: "py_float (or_zero_float (sql_sum xs)) = of_int (sum_list xs) / 100"
  by (simp add: or_zero_float_def sql_sum_def)

lemma balance_eq:
  "balance d org_id =
     of_int (sum_list (map t_amount (filter (\<lambda>t. t_organization_id t = org_id)
                                        (transactions d)))) / 100"
  by (simp only: balance_def py_float_or_zero)

text \<open>
  A report that returns satisfies the equations of the claim: gains are the month's gain
  amounts, total_expenses the sum of the per-category totals, profit_loss their sum.
\<close>

lemma monthly_report_fields:
  assumes "monthly_report d org_id (Some year) (Some month) now = Inr r"
  shows "rp_gains r =
           of_int (sum_list (map t_amount
             (filter (\<lambda>t. t_organization_id t = org_id \<and> t_type t = Gain
                          \<and> year_of (t_date t) = year \<and> month_of (t_date t) = month)
                (transactions d)))) / 100
         \<and> rp_total_expenses r = sum_list (map snd (rp_expenses r))
         \<and> rp_profit_loss r = rp_gains r + rp_total_expenses r"
proof -
  let ?period = "\<lambda>dt. year_of dt = year \<and> month_of dt = month"
  define gains where "gains = gains_query d org_id ?period"
  define by_cat where "by_cat = expenses_by_cat d org_id ?period"
  define total where "total = (if by_cat = [] then PyInt 0
                else PyFloat (sum_list (map (\<lambda>(l, t). py_float (PyDecimal t)) by_cat)))"
  have gains_val: "py_float gains =
           of_int (sum_list (map t_amount
             (filter (\<lambda>t. t_organization_id t = org_id \<and> t_type t = Gain
                          \<and> year_of (t_date t) = year \<and> month_of (t_date t) = month)
                (transactions d)))) / 100"
    by (simp only: gains_def gains_query_def py_float_or_zero)
  have unfolded: "monthly_report d org_id (Some year) (Some month) now =
      (case py_add gains total of
        Inl err \<Rightarrow> Inl err
      | Inr profit_loss \<Rightarrow>
      (case active_students d org_id year month of
        Inl err \<Rightarrow> Inl err
      | Inr avg_students \<Rightarrow>
          Inr \<lparr>rp_gains = py_float gains,
               rp_expenses = map (\<lambda>(cat, total). (cat, py_float (PyDecimal total))) by_cat,
               rp_total_expenses = py_float total,
               rp_profit_loss = py_float profit_loss,
               rp_avg_active_students = avg_students\<rparr>))"
    unfolding monthly_report_def Let_def gains_def by_cat_def total_def
    by (simp only: py_sum_from_zero option.case sum.case)
  from assms obtain profit_loss where pl: "py_add gains total = Inr profit_loss"
    unfolding unfolded by (cases "py_add gains total") simp_all
  from assms pl obtain avg where
    r: "r = \<lparr>rp_gains = py_float gains,
             rp_expenses = map (\<lambda>(cat, total). (cat, py_float (PyDecimal total))) by_cat,
             rp_total_expenses = py_float total,
             rp_profit_loss = py_float profit_loss,
             rp_avg_active_students = avg\<rparr>"
    unfolding unfolded by (cases "active_students d org_id year month") auto
  have tot: "py_float total = sum_list (map (\<lambda>(l, t). py_float (PyDecimal t)) by_cat)"
    by (simp add: total_def)
  have add: "py_float profit_loss = py_float gains + py_float total"
    using pl by (cases gains; cases total) (auto simp: add_divide_distrib)
  have sum_snd': "sum_list (map (snd \<circ> (\<lambda>(cat, total). (cat, rat_of_int total / 100))) rows)
                    = sum_list (map (\<lambda>(l, t). rat_of_int t / 100) rows)"
    for rows :: "(string \<times> int) list"
    by (induction rows) auto
  show ?thesis
    unfolding r using gains_val tot add by (simp add: sum_snd')
qed

subsection \<open>Expenses without a category\<close>

lemma gains_query_drop:
  assumes "t_type t = Depense" and "transactions d = xs @ t # ys"
  shows "gains_query d org_id period = gains_query (d\<lparr>transactions := xs @ ys\<rparr>) org_id period"
  using assms by (simp add: gains_query_def)

lemma expenses_by_cat_drop:
  assumes "t_category_id t = None" and "transactions d = xs @ t # ys"
  shows "expenses_by_cat d org_id period
           = expenses_by_cat (d\<lparr>transactions := xs @ ys\<rparr>) org_id period"
  using assms by (simp add: expenses_by_cat_def)

lemma active_students_transactions:
  "active_students (d\<lparr>transactions := ts\<rparr>) org_id year month
     = active_students d org_id year month"
  by (simp add: active_students_def cong: sum.case_cong)

lemma monthly_avgs_transactions:
  "monthly_avgs (d\<lparr>transactions := ts\<rparr>) org_id year ms = monthly_avgs d org_id year ms"
  by (induction ms) (simp_all add: active_students_transactions cong: sum.case_cong)

text \<open>
  C10. An expense whose category reference is null takes no part in
  \<open>monthly_report\<close> and \<open>annual_report\<close>: with or without that transaction in the ledger
  the reports are the same (the expenses-by-category mapping, total_expenses and
  profit_loss included), while the balance of its organization includes its amount.
\<close>

theorem uncategorized_expense_outside_reports:
  assumes "t_type t = Depense"
    and "t_category_id t = None"
    and "transactions d = xs @ t # ys"
    and "d' = d\<lparr>transactions := xs @ ys\<rparr>"
  shows "monthly_report d org_id year_arg month_arg now
           = monthly_report d' org_id year_arg month_arg now
         \<and> annual_report d org_id year_arg now = annual_report d' org_id year_arg now
         \<and> balance d (t_organization_id t)
             = balance d' (t_organization_id t) + of_int (t_amount t) / 100"
proof -
  note g = gains_query_drop [OF assms(1,3)]
  note e = expenses_by_cat_drop [OF assms(2,3)]
  have monthly: "monthly_report d org_id year_arg month_arg now
                   = monthly_report d' org_id year_arg month_arg now"
    unfolding monthly_report_def assms(4)
    by (simp only: g e active_students_transactions)
  have annual: "annual_report d org_id year_arg now = annual_report d' org_id year_arg now"
    unfolding annual_report_def assms(4)
    by (simp only: g e monthly_avgs_transactions)
  have bal: "balance d (t_organization_id t)
               = balance d' (t_organization_id t) + of_int (t_amount t) / 100"
    by (simp add: balance_eq assms(3,4) add_divide_distrib)
  from monthly annual bal show ?thesis by simp
qed

lemma first_of_month_2024:
  "first_of_month 2024 1 = Inr 738886" "first_of_month 2024 2 = Inr 738917"
  "first_of_month 2024 3 = Inr 738946" "first_of_month 2024 4 = Inr 738977"
  "first_of_month 2024 5 = Inr 739007" "first_of_month 2024 6 = Inr 739038"
  "first_of_month 2024 7 = Inr 739068" "first_of_month 2024 8 = Inr 739099"
  "first_of_month 2024 9 = Inr 739130" "first_of_month 2024 10 = Inr 739160"
  "first_of_month 2024 11 = Inr 739191" "first_of_month 2024 12 = Inr 739221"
  by (simp_all add: first_of_month_def MINYEAR_def MAXYEAR_def ymd2ord_def
      days_before_year_def days_before_month_def DAYS_BEFORE_MONTH_def is_leap_def)

lemma monthly_report_uncategorized:
  "monthly_report uncategorized_db 1 (Some 2024) (Some 3) noon =
     Inr \<lparr>rp_gains = 500, rp_expenses = [], rp_total_expenses = 0, rp_profit_loss = 500,
          rp_avg_active_students = 0\<rparr>"
  by (simp add: monthly_report_def Let_def uncategorized_db_def empty_db_def gain_row_def
      expense_row_def gains_query_def expenses_by_cat_def group_by_label_def
      sql_sum_def or_zero_float_def year_of_def month_of_def
      ord2ymd_738950 ord2ymd_738955 active_students_def first_of_month_2024
      date_add_def max_ordinal_def)

lemma annual_report_uncategorized:
  "annual_report uncategorized_db 1 (Some 2024) noon =
     Inr \<lparr>rp_gains = 500, rp_expenses = [], rp_total_expenses = 0, rp_profit_loss = 500,
          rp_avg_active_students = 0\<rparr>"
  by (simp add: annual_report_def Let_def uncategorized_db_def empty_db_def gain_row_def
      expense_row_def gains_query_def expenses_by_cat_def group_by_label_def
      sql_sum_def or_zero_float_def year_of_def
      ord2ymd_738950 ord2ymd_738955 active_students_def first_of_month_2024
      date_add_def max_ordinal_def)

lemma balance_uncategorized: "balance uncategorized_db 1 = 380"
  by (simp add: balance_eq uncategorized_db_def empty_db_def gain_row_def expense_row_def)

text \<open>
  Gains of 500.00 and one expense of 120.00 without category: both reports show
  profit_loss 500 and no expenses, as if the expense were not in the ledger; the balance
  is 380.
\<close>

theorem uncategorized_expense_outside_reports_witness:
  "t_type (expense_row None) = Depense
   \<and> t_category_id (expense_row None) = None
   \<and> transactions uncategorized_db = [gain_row] @ expense_row None # []
   \<and> monthly_report uncategorized_db 1 (Some 2024) (Some 3) noon
       = monthly_report (uncategorized_db\<lparr>transactions := [gain_row]\<rparr>) 1 (Some 2024) (Some 3) noon
   \<and> monthly_report uncategorized_db 1 (Some 2024) (Some 3) noon
       = Inr \<lparr>rp_gains = 500, rp_expenses = [], rp_total_expenses = 0, rp_profit_loss = 500,
              rp_avg_active_students = 0\<rparr>
   \<and> annual_report uncategorized_db 1 (Some 2024) noon
       = annual_report (uncategorized_db\<lparr>transactions := [gain_row]\<rparr>) 1 (Some 2024) noon
   \<and> annual_report uncategorized_db 1 (Some 2024) noon
       = Inr \<lparr>rp_gains = 500, rp_expenses = [], rp_total_expenses = 0, rp_profit_loss = 500,
              rp_avg_active_students = 0\<rparr>
   \<and> balance uncategorized_db 1 = 380
   \<and> balance (uncategorized_db\<lparr>transactions := [gain_row]\<rparr>) 1 = 500"
proof -
  have h1: "t_type (expense_row None) = Depense"
    and h2: "t_category_id (expense_row None) = None"
    by (simp_all add: expense_row_def)
  have h3: "transactions uncategorized_db = [gain_row] @ expense_row None # []"
    by (simp add: uncategorized_db_def empty_db_def)
  have h4: "uncategorized_db\<lparr>transactions := [gain_row]\<rparr>
              = uncategorized_db\<lparr>transactions := [gain_row] @ []\<rparr>"
    by simp
  have org: "t_organization_id (expense_row None) = 1" "t_amount (expense_row None) = - 12000"
    by (simp_all add: expense_row_def)
  from uncategorized_expense_outside_reports [OF h1 h2 h3 h4, of 1 "Some 2024" "Some 3" noon]
  show ?thesis
    using h1 h2 h3 monthly_report_uncategorized annual_report_uncategorized
      balance_uncategorized
    by (simp add: org)
qed

text \<open>
  Deleting category 1 is one way to get there: the engine nulls the reference of its
  transactions. The month that made \<open>monthly_report\<close> raise now reports a profit of 500.
\<close>

lemma delete_category_nulls_reference:
  "delete_category march_db 1 1 = Inr uncategorized_db"
  by (simp add: delete_category_def march_db_def uncategorized_db_def empty_db_def
      gain_row_def expense_row_def)

end
